theory Spec2Isabelle
  imports Complex_Main
begin

section \<open>NumPy float64 values\<close>

text \<open>
  The pipeline of \<^verbatim>\<open>PyNomaly/loop.py\<close> works on NumPy float64 arrays. A value is a
  finite real, one of the two infinities, or NaN. Finite arithmetic is taken exact
  (rounding, overflow, underflow and the sign of zero are not modelled); the special
  values follow IEEE 754, which is what NumPy does under \<^verbatim>\<open>np.errstate\<close> or with
  a RuntimeWarning.
\<close>

datatype fl = Fin real | PInf | NInf | NaN

fun fl_isnan :: "fl \<Rightarrow> bool" where
  "fl_isnan NaN = True"
| "fl_isnan _ = False"

fun fl_neg :: "fl \<Rightarrow> fl" where
  "fl_neg (Fin a) = Fin (- a)"
| "fl_neg PInf = NInf"
| "fl_neg NInf = PInf"
| "fl_neg NaN = NaN"

fun fl_add :: "fl \<Rightarrow> fl \<Rightarrow> fl" where
  "fl_add NaN _ = NaN"
| "fl_add _ NaN = NaN"
| "fl_add (Fin a) (Fin b) = Fin (a + b)"
| "fl_add PInf NInf = NaN"
| "fl_add NInf PInf = NaN"
| "fl_add PInf _ = PInf"
| "fl_add NInf _ = NInf"
| "fl_add (Fin a) b = b"

definition fl_sub :: "fl \<Rightarrow> fl \<Rightarrow> fl" where
  "fl_sub a b = fl_add a (fl_neg b)"

text \<open>The sign of an infinite product or quotient, by the sign of the finite operand.\<close>

definition signed_inf :: "bool \<Rightarrow> fl" where
  "signed_inf positive = (if positive then PInf else NInf)"

fun fl_mul :: "fl \<Rightarrow> fl \<Rightarrow> fl" where
  "fl_mul NaN _ = NaN"
| "fl_mul _ NaN = NaN"
| "fl_mul (Fin a) (Fin b) = Fin (a * b)"
| "fl_mul PInf PInf = PInf"
| "fl_mul NInf NInf = PInf"
| "fl_mul PInf NInf = NInf"
| "fl_mul NInf PInf = NInf"
| "fl_mul (Fin a) PInf = (if a = 0 then NaN else signed_inf (0 < a))"
| "fl_mul (Fin a) NInf = (if a = 0 then NaN else signed_inf (a < 0))"
| "fl_mul PInf (Fin b) = (if b = 0 then NaN else signed_inf (0 < b))"
| "fl_mul NInf (Fin b) = (if b = 0 then NaN else signed_inf (b < 0))"

text \<open>
  Division: a finite nonzero value over zero is an infinity of the dividend's sign (every
  zero divisor of the pipeline is a positive zero), zero over zero and infinity over
  infinity are NaN, finite over infinity is zero.
\<close>

fun fl_div :: "fl \<Rightarrow> fl \<Rightarrow> fl" where
  "fl_div NaN _ = NaN"
| "fl_div _ NaN = NaN"
| "fl_div (Fin a) (Fin b) =
     (if b = 0 then (if a = 0 then NaN else signed_inf (0 < a)) else Fin (a / b))"
| "fl_div (Fin a) PInf = Fin 0"
| "fl_div (Fin a) NInf = Fin 0"
| "fl_div PInf (Fin b) = signed_inf (0 \<le> b)"
| "fl_div NInf (Fin b) = signed_inf (b < 0)"
| "fl_div PInf _ = NaN"
| "fl_div NInf _ = NaN"

fun fl_sqrt :: "fl \<Rightarrow> fl" where
  "fl_sqrt (Fin a) = (if a < 0 then NaN else Fin (sqrt a))"
| "fl_sqrt PInf = PInf"
| "fl_sqrt NInf = NaN"
| "fl_sqrt NaN = NaN"

fun fl_fabs :: "fl \<Rightarrow> fl" where
  "fl_fabs (Fin a) = Fin \<bar>a\<bar>"
| "fl_fabs PInf = PInf"
| "fl_fabs NInf = PInf"
| "fl_fabs NaN = NaN"

text \<open>Comparisons: every comparison with NaN is false.\<close>

fun fl_lt :: "fl \<Rightarrow> fl \<Rightarrow> bool" where
  "fl_lt NaN _ = False"
| "fl_lt _ NaN = False"
| "fl_lt (Fin a) (Fin b) = (a < b)"
| "fl_lt NInf NInf = False"
| "fl_lt NInf _ = True"
| "fl_lt _ NInf = False"
| "fl_lt PInf _ = False"
| "fl_lt (Fin a) PInf = True"

definition fl_eq :: "fl \<Rightarrow> fl \<Rightarrow> bool" where
  "fl_eq a b = (\<not> fl_isnan a \<and> \<not> fl_isnan b \<and> a = b)"

definition fl_le :: "fl \<Rightarrow> fl \<Rightarrow> bool" where
  "fl_le a b = (fl_lt a b \<or> fl_eq a b)"

text \<open>Truth value of an array element for \<^verbatim>\<open>ndarray.any()\<close>: nonzero, and NaN is nonzero.\<close>

fun fl_truthy :: "fl \<Rightarrow> bool" where
  "fl_truthy (Fin a) = (a \<noteq> 0)"
| "fl_truthy _ = True"

text \<open>\<^verbatim>\<open>np.maximum(0, x)\<close> propagates NaN.\<close>

fun fl_maximum0 :: "fl \<Rightarrow> fl" where
  "fl_maximum0 (Fin a) = Fin (max 0 a)"
| "fl_maximum0 PInf = PInf"
| "fl_maximum0 NInf = Fin 0"
| "fl_maximum0 NaN = NaN"

text \<open>
  \<^verbatim>\<open>math.erf\<close> is a function of the C library. Its values on finite arguments are the
  parameter \<open>erf\<close> of the model; on the special values it returns \<open>\<plusminus>1\<close> and NaN.
\<close>

fun fl_erf :: "(real \<Rightarrow> real) \<Rightarrow> fl \<Rightarrow> fl" where
  "fl_erf erf (Fin a) = Fin (erf a)"
| "fl_erf erf PInf = Fin 1"
| "fl_erf erf NInf = Fin (- 1)"
| "fl_erf erf NaN = NaN"

definition fl_sum :: "fl list \<Rightarrow> fl" where
  "fl_sum xs = foldl fl_add (Fin 0) xs"

text \<open>\<^verbatim>\<open>np.mean\<close>: the sum over the count; of an empty array it is NaN (0/0).\<close>

definition fl_mean :: "fl list \<Rightarrow> fl" where
  "fl_mean xs = fl_div (fl_sum xs) (Fin (real (length xs)))"

text \<open>\<^verbatim>\<open>np.sort\<close>: ascending, NaN last.\<close>

fun sort_le :: "fl \<Rightarrow> fl \<Rightarrow> bool" where
  "sort_le _ NaN = True"
| "sort_le NaN _ = False"
| "sort_le a b = (\<not> fl_lt b a)"

fun np_insert :: "fl \<Rightarrow> fl list \<Rightarrow> fl list" where
  "np_insert x [] = [x]"
| "np_insert x (y # ys) = (if sort_le x y then x # y # ys else y # np_insert x ys)"

definition np_sort :: "fl list \<Rightarrow> fl list" where
  "np_sort xs = foldr np_insert xs []"

text \<open>\<^verbatim>\<open>np.unique\<close>: the sorted distinct values.\<close>

definition np_unique :: "fl list \<Rightarrow> fl list" where
  "np_unique xs = remdups_adj (np_sort xs)"

text \<open>
  A Python slice \<^verbatim>\<open>xs[start:stop]\<close> with a start that is not negative: a negative stop
  counts from the end, everything is clipped to the list.
\<close>

definition py_slice :: "nat \<Rightarrow> int \<Rightarrow> 'a list \<Rightarrow> 'a list" where
  "py_slice start stop xs =
     (let n = int (length xs);
          e = (if stop < 0 then max 0 (n + stop) else min stop n)
      in take (nat e - start) (drop start xs))"


section \<open>The object and its constructor\<close>

text \<open>
  \<^verbatim>\<open>sys.exit()\<close> raises SystemExit; the other errors are the exceptions NumPy and Python
  raise on the paths of the pipeline.
\<close>

datatype error = SystemExit | ValueError | IndexError | KeyError | AttributeError

text \<open>
  The cluster labels. The docstring asks for a NumPy array; the decorator of line 67 lets
  a Python list pass as well. Both hold integers here (a list holds Python ints).
\<close>

datatype labels = Ndarray "int list" | Pylist "int list"

fun elements :: "labels \<Rightarrow> int list" where
  "elements (Ndarray xs) = xs"
| "elements (Pylist xs) = xs"

text \<open>
  The instance attributes. \<open>cluster_labels_u\<close> does not exist until \<^verbatim>\<open>_ssd\<close> creates it
  (\<open>None\<close> is the absent attribute). The data is an \<open>n \<times> d\<close> matrix. The labels are
  \<open>None\<close> when the argument is left out. The table keeps a label as a float, a conversion
  taken exact.
\<close>

record LocalOutlierProbability =
  data :: "fl list list"
  extent :: fl
  n_neighbors :: int
  cluster_labels :: "labels option"
  local_outlier_probabilities :: "fl list option"
  cluster_labels_u :: "fl list option"

text \<open>
  \<^verbatim>\<open>__init__\<close> (lines 68-81). The decorator \<^verbatim>\<open>accepts\<close> checks the argument types, which
  are the types of this definition. The NaN warning of lines 80-81 changes nothing.
\<close>

definition init ::
  "fl list list \<Rightarrow> fl \<Rightarrow> int \<Rightarrow> labels option \<Rightarrow> error + LocalOutlierProbability" where
  "init data0 extent0 n_neighbors0 cluster_labels0 =
     (let self = \<lparr>data = data0, extent = extent0, n_neighbors = n_neighbors0,
                  cluster_labels = cluster_labels0, local_outlier_probabilities = None,
                  cluster_labels_u = None\<rparr>
      in if \<not> n_neighbors self > 0 then Inl SystemExit
         else if \<not> (fl_lt (Fin 0) (extent self) \<and> fl_le (extent self) (Fin 1))
           then Inl SystemExit
         else Inr self)"

section \<open>The element-wise transforms (static methods, lines 83-104)\<close>

text \<open>
  The static methods take columns and NumPy applies their arithmetic element by element:
  these are the functions of one element.
\<close>

definition standard_distance :: "fl \<Rightarrow> fl \<Rightarrow> fl" where
  "standard_distance mean_distance sum_squared_distance =
     fl_sqrt (fl_div sum_squared_distance (fl_fabs mean_distance))"

definition prob_set_distance :: "fl \<Rightarrow> fl \<Rightarrow> fl" where
  "prob_set_distance extent0 standard_distance0 =
     fl_div (Fin 1) (fl_mul extent0 standard_distance0)"

definition prob_outlier_factor :: "fl \<Rightarrow> fl \<Rightarrow> fl" where
  "prob_outlier_factor probabilistic_set_distance ev_prob_dist =
     fl_sub (fl_div probabilistic_set_distance ev_prob_dist) (Fin 1)"

definition norm_prob_outlier_factor :: "fl \<Rightarrow> fl \<Rightarrow> fl" where
  "norm_prob_outlier_factor extent0 ev_probabilistic_outlier_factor =
     fl_mul extent0 (fl_sqrt ev_probabilistic_outlier_factor)"

definition local_outlier_probability :: "(real \<Rightarrow> real) \<Rightarrow> fl \<Rightarrow> fl \<Rightarrow> fl" where
  "local_outlier_probability erf plof_val nplof_val =
     fl_maximum0 (fl_erf erf (fl_div plof_val (fl_mul nplof_val (fl_sqrt (Fin 2)))))"

section \<open>The statistics table\<close>

text \<open>
  The table \<^verbatim>\<open>data_store\<close> is a list of rows. \<^verbatim>\<open>np.empty\<close> returns uninitialised
  memory: its contents are the parameter \<open>mem\<close>.
\<close>

definition n_observations :: "LocalOutlierProbability \<Rightarrow> nat" where
  "n_observations self = length (data self)"

definition store :: "(nat \<Rightarrow> nat \<Rightarrow> fl) \<Rightarrow> LocalOutlierProbability \<Rightarrow> fl list list" where
  "store mem self = map (\<lambda>i. map (mem i) [0..<3]) [0..<n_observations self]"

text \<open>The method \<^verbatim>\<open>_cluster_labels\<close> (lines 112-116); the attribute keeps the name.\<close>

definition cluster_labels_of :: "LocalOutlierProbability \<Rightarrow> labels" where
  "cluster_labels_of self =
     (case cluster_labels self of
        None \<Rightarrow> Ndarray (replicate (length (data self)) 0)
      | Some labels0 \<Rightarrow> labels0)"

definition column :: "nat \<Rightarrow> fl list list \<Rightarrow> fl list" where
  "column k data_store = map (\<lambda>row. row ! k) data_store"

text \<open>\<^verbatim>\<open>np.hstack\<close> of the table and one new column.\<close>

definition hstack :: "fl list list \<Rightarrow> fl list \<Rightarrow> fl list list" where
  "hstack data_store col = map (\<lambda>(row, v). row @ [v]) (zip data_store col)"

section \<open>Stage 1: neighbor distances (lines 118-135)\<close>

text \<open>
  With \<open>p\<^sub>0, \<dots>, p\<^sub>m\<^sub>-\<^sub>1\<close> the rows of a cluster, line 126 builds
  \<open>d[i, j, k] = p\<^sub>i[k] - p\<^sub>j[k]\<close> and applies \<^verbatim>\<open>np.tril(\<dots>, -1)\<close>, which on an array
  of more than two dimensions works on the last two axes \<open>(j, k)\<close>: the entry is kept
  where \<open>k < j\<close> and is zero elsewhere. \<open>tril_diff vec p\<^sub>i p\<^sub>v\<^sub>e\<^sub>c\<close> is the row
  \<open>d[i, vec, :]\<close>.
\<close>

definition tril_diff :: "nat \<Rightarrow> fl list \<Rightarrow> fl list \<Rightarrow> fl list" where
  "tril_diff vec p q =
     map (\<lambda>(k, a, b). if k < vec then fl_sub a b else Fin 0) (zip [0..<length p] (zip p q))"

text \<open>One entry of \<^verbatim>\<open>np.mean(np.sqrt(d[:, vec] ** 2), axis=1)\<close> (line 128).\<close>

definition pair_distance :: "nat \<Rightarrow> fl list \<Rightarrow> fl list \<Rightarrow> fl" where
  "pair_distance vec p q = fl_mean (map (\<lambda>x. fl_sqrt (fl_mul x x)) (tril_diff vec p q))"

definition neighborhood ::
  "LocalOutlierProbability \<Rightarrow> fl list list \<Rightarrow> nat \<Rightarrow> fl list" where
  "neighborhood self points_vector vec =
     py_slice 1 (n_neighbors self + 1)
       (np_sort (map (\<lambda>p. pair_distance vec p (points_vector ! vec)) points_vector))"

text \<open>
  Lines 128-131 for the member at position \<open>vec\<close> of a cluster: the row written to the
  table. Line 130 takes the slice \<^verbatim>\<open>[1:2]\<close> of the neighborhood; line 131 builds a row
  of three floats from the cluster id, the mean and that slice. The NumPy releases the
  package was written for (before 1.24) take a slice of one element for its element and
  raise for an empty slice.
\<close>

definition neighbor_row ::
  "LocalOutlierProbability \<Rightarrow> int \<Rightarrow> fl list list \<Rightarrow> nat \<Rightarrow> error + fl list" where
  "neighbor_row self cluster_id points_vector vec =
     (let neighborhood_distances = neighborhood self points_vector vec;
          neighborhood_dist = fl_mean neighborhood_distances;
          closest_neighbor_distance = py_slice 1 2 neighborhood_distances
      in case closest_neighbor_distance of
           [c] \<Rightarrow> Inr [Fin (of_int cluster_id), neighborhood_dist, c]
         | _ \<Rightarrow> Inl ValueError)"

text \<open>The loop of lines 127-131 over the members of one cluster.\<close>

fun distances_rows ::
  "LocalOutlierProbability \<Rightarrow> int \<Rightarrow> nat list \<Rightarrow> fl list list \<Rightarrow> nat list \<Rightarrow> fl list list
     \<Rightarrow> error + fl list list" where
  "distances_rows self cluster_id indices points_vector [] data_store = Inr data_store"
| "distances_rows self cluster_id indices points_vector (vec # vecs) data_store =
     (case neighbor_row self cluster_id points_vector vec of
        Inl e \<Rightarrow> Inl e
      | Inr row \<Rightarrow>
          if indices ! vec < length data_store
          then distances_rows self cluster_id indices points_vector vecs
                 (data_store[indices ! vec := row])
          else Inl IndexError)"

text \<open>
  The loop of line 119 over \<^verbatim>\<open>set(self._cluster_labels())\<close>. The order in which Python
  iterates over a set is not specified: the list \<open>ids\<close> is that order, an enumeration
  without repetition of the distinct labels.
\<close>

definition set_iteration :: "int list \<Rightarrow> int list \<Rightarrow> bool" where
  "set_iteration ids vals = (distinct ids \<and> set ids = set vals)"

text \<open>
  Line 120: \<^verbatim>\<open>np.where(self._cluster_labels() == cluster_id)\<close>, the positions of a cluster's
  members. For a NumPy array \<^verbatim>\<open>==\<close> compares element by element. For a Python list it
  compares the list with the integer, which is \<^verbatim>\<open>False\<close>, and \<^verbatim>\<open>np.where(False)\<close> finds no
  position.
\<close>

fun where_eq :: "labels \<Rightarrow> int \<Rightarrow> nat list" where
  "where_eq (Ndarray xs) cluster_id = filter (\<lambda>i. xs ! i = cluster_id) [0..<length xs]"
| "where_eq (Pylist xs) cluster_id = []"

fun distances ::
  "LocalOutlierProbability \<Rightarrow> int list \<Rightarrow> fl list list \<Rightarrow> error + fl list list" where
  "distances self [] data_store = Inr data_store"
| "distances self (cluster_id # ids) data_store =
     (let indices = where_eq (cluster_labels_of self) cluster_id
      in if list_ex (\<lambda>i. length (data self) \<le> i) indices then Inl IndexError
         else
           let points_vector = map (\<lambda>i. data self ! i) indices
           in case distances_rows self cluster_id indices points_vector
                     [0..<length points_vector] data_store of
                Inl e \<Rightarrow> Inl e
              | Inr data_store1 \<Rightarrow>
                  if \<not> list_ex fl_truthy (column 1 data_store1) then Inl SystemExit
                  else distances self ids data_store1)"


section \<open>Stages 2 to 9 (lines 137-195)\<close>

text \<open>
  The values of column \<open>k\<close> in the rows whose column 0 equals \<open>cluster_id\<close>
  (\<^verbatim>\<open>np.where(data_store[:, 0] == cluster_id)\<close> and \<^verbatim>\<open>np.take\<close>), and the removal of NaN.
\<close>

definition cluster_column :: "nat \<Rightarrow> fl list list \<Rightarrow> fl \<Rightarrow> fl list" where
  "cluster_column k data_store cluster_id =
     column k (filter (\<lambda>row. fl_eq (row ! 0) cluster_id) data_store)"

definition nonan :: "fl list \<Rightarrow> fl list" where
  "nonan xs = filter (\<lambda>x. \<not> fl_isnan x) xs"

text \<open>
  A dictionary keyed by cluster id. A lookup with a NaN key finds nothing (NaN is not
  equal to itself), a missing key raises KeyError.
\<close>

definition dict_get :: "(fl \<rightharpoonup> fl) \<Rightarrow> fl \<Rightarrow> error + fl" where
  "dict_get d x =
     (if fl_isnan x then Inl KeyError
      else case d x of None \<Rightarrow> Inl KeyError | Some v \<Rightarrow> Inr v)"

text \<open>The comprehension \<^verbatim>\<open>[d[x] for x in data_store[:, 0].tolist()]\<close>.\<close>

fun dict_column :: "(fl \<rightharpoonup> fl) \<Rightarrow> fl list \<Rightarrow> error + fl list" where
  "dict_column d [] = Inr []"
| "dict_column d (x # xs) =
     (case dict_get d x of
        Inl e \<Rightarrow> Inl e
      | Inr v \<Rightarrow> (case dict_column d xs of Inl e \<Rightarrow> Inl e | Inr vs \<Rightarrow> Inr (v # vs)))"

definition broadcast :: "(fl \<rightharpoonup> fl) \<Rightarrow> fl list list \<Rightarrow> error + fl list list" where
  "broadcast d data_store =
     (case dict_column d (column 0 data_store) of
        Inl e \<Rightarrow> Inl e
      | Inr col \<Rightarrow> Inr (hstack data_store col))"

text \<open>Lines 144: the sum of the squared context distances of a cluster, NaN left out.\<close>

definition cluster_ssd :: "fl list list \<Rightarrow> fl \<Rightarrow> fl" where
  "cluster_ssd data_store cluster_id =
     fl_sum (map (\<lambda>x. fl_mul x x) (nonan (cluster_column 1 data_store cluster_id)))"

fun ssd_loop :: "fl list list \<Rightarrow> fl list \<Rightarrow> (fl \<rightharpoonup> fl) \<Rightarrow> error + (fl \<rightharpoonup> fl)" where
  "ssd_loop data_store [] ssd_dict = Inr ssd_dict"
| "ssd_loop data_store (cluster_id # ids) ssd_dict =
     (let ssd0 = cluster_ssd data_store cluster_id
      in if fl_eq ssd0 (Fin 0) then Inl SystemExit
         else ssd_loop data_store ids (ssd_dict(cluster_id \<mapsto> ssd0)))"

definition ssd ::
  "LocalOutlierProbability \<Rightarrow> fl list list \<Rightarrow> error + LocalOutlierProbability \<times> fl list list" where
  "ssd self data_store =
     (let u = np_unique (column 0 data_store);
          self1 = self\<lparr>cluster_labels_u := Some u\<rparr>
      in case ssd_loop data_store u Map.empty of
           Inl e \<Rightarrow> Inl e
         | Inr ssd_dict \<Rightarrow>
             (case broadcast ssd_dict data_store of
                Inl e \<Rightarrow> Inl e
              | Inr data_store1 \<Rightarrow> Inr (self1, data_store1)))"

definition standard_distances :: "fl list list \<Rightarrow> fl list list" where
  "standard_distances data_store =
     hstack data_store (map (\<lambda>row. standard_distance (row ! 1) (row ! 3)) data_store)"

definition prob_set_distances :: "LocalOutlierProbability \<Rightarrow> fl list list \<Rightarrow> fl list list" where
  "prob_set_distances self data_store =
     hstack data_store (map (\<lambda>row. prob_set_distance (extent self) (row ! 4)) data_store)"

text \<open>The loops of lines 162-166 and 178-184 fill a dictionary, one entry per cluster id.\<close>

fun ev_loop :: "(fl \<Rightarrow> fl) \<Rightarrow> fl list \<Rightarrow> (fl \<rightharpoonup> fl) \<Rightarrow> (fl \<rightharpoonup> fl)" where
  "ev_loop ev [] ev_dict = ev_dict"
| "ev_loop ev (cluster_id # ids) ev_dict = ev_loop ev ids (ev_dict(cluster_id \<mapsto> ev cluster_id))"

definition cluster_ev_prob_set_distance :: "fl list list \<Rightarrow> fl \<Rightarrow> fl" where
  "cluster_ev_prob_set_distance data_store cluster_id =
     fl_mean (nonan (cluster_column 5 data_store cluster_id))"

definition prob_set_distances_ev ::
  "LocalOutlierProbability \<Rightarrow> fl list list \<Rightarrow> error + fl list list" where
  "prob_set_distances_ev self data_store =
     (case cluster_labels_u self of
        None \<Rightarrow> Inl AttributeError
      | Some u \<Rightarrow>
          broadcast (ev_loop (cluster_ev_prob_set_distance data_store) u Map.empty) data_store)"

definition prob_local_outlier_factors :: "fl list list \<Rightarrow> fl list list" where
  "prob_local_outlier_factors data_store =
     hstack data_store (map (\<lambda>row. prob_outlier_factor (row ! 5) (row ! 6)) data_store)"

definition cluster_ev_plof_sq :: "fl list list \<Rightarrow> fl \<Rightarrow> fl" where
  "cluster_ev_plof_sq data_store cluster_id =
     (let prob_local_outlier_factors_nonan = nonan (cluster_column 7 data_store cluster_id)
      in fl_div (fl_sum (map (\<lambda>x. fl_mul x x) prob_local_outlier_factors_nonan))
           (Fin (real (length prob_local_outlier_factors_nonan))))"

definition prob_local_outlier_factors_ev ::
  "LocalOutlierProbability \<Rightarrow> fl list list \<Rightarrow> error + fl list list" where
  "prob_local_outlier_factors_ev self data_store =
     (case cluster_labels_u self of
        None \<Rightarrow> Inl AttributeError
      | Some u \<Rightarrow> broadcast (ev_loop (cluster_ev_plof_sq data_store) u Map.empty) data_store)"

definition norm_prob_local_outlier_factors ::
  "LocalOutlierProbability \<Rightarrow> fl list list \<Rightarrow> fl list list" where
  "norm_prob_local_outlier_factors self data_store =
     hstack data_store (map (\<lambda>row. norm_prob_outlier_factor (extent self) (row ! 8)) data_store)"

text \<open>
  Line 103 wraps \<^verbatim>\<open>math.erf\<close> in \<^verbatim>\<open>np.vectorize\<close>, which refuses an input of size 0
  with a ValueError. The method \<^verbatim>\<open>_local_outlier_probabilities\<close> is named
  \<open>local_outlier_probabilities_stage\<close> here, the attribute keeps the name.
\<close>

definition local_outlier_probabilities_stage ::
  "(real \<Rightarrow> real) \<Rightarrow> fl list list \<Rightarrow> error + fl list list" where
  "local_outlier_probabilities_stage erf data_store =
     (if data_store = [] then Inl ValueError
      else Inr (hstack data_store
                  (map (\<lambda>row. local_outlier_probability erf (row ! 7) (row ! 9)) data_store)))"

section \<open>fit (lines 197-211)\<close>

text \<open>
  \<open>later_stages\<close> is lines 200-207, the stages after the neighbor distances;
  \<open>fit_store\<close> is lines 198-207: the table after the ninth stage, with the object as
  \<^verbatim>\<open>_ssd\<close> left it. \<open>fit\<close> stores column 10 in the object and returns it.
\<close>

definition later_stages ::
  "(real \<Rightarrow> real) \<Rightarrow> LocalOutlierProbability \<Rightarrow> fl list list
     \<Rightarrow> error + LocalOutlierProbability \<times> fl list list" where
  "later_stages erf self s1 =
     (case ssd self s1 of
        Inl e \<Rightarrow> Inl e
      | Inr (self1, s2) \<Rightarrow>
     (case prob_set_distances_ev self1 (prob_set_distances self1 (standard_distances s2)) of
        Inl e \<Rightarrow> Inl e
      | Inr s5 \<Rightarrow>
     (case prob_local_outlier_factors_ev self1 (prob_local_outlier_factors s5) of
        Inl e \<Rightarrow> Inl e
      | Inr s7 \<Rightarrow>
     (case local_outlier_probabilities_stage erf (norm_prob_local_outlier_factors self1 s7) of
        Inl e \<Rightarrow> Inl e
      | Inr s9 \<Rightarrow> Inr (self1, s9)))))"

definition fit_store ::
  "(nat \<Rightarrow> nat \<Rightarrow> fl) \<Rightarrow> int list \<Rightarrow> (real \<Rightarrow> real) \<Rightarrow> LocalOutlierProbability
     \<Rightarrow> error + LocalOutlierProbability \<times> fl list list" where
  "fit_store mem ids erf self =
     (case distances self ids (store mem self) of
        Inl e \<Rightarrow> Inl e
      | Inr s1 \<Rightarrow> later_stages erf self s1)"

definition fit ::
  "(nat \<Rightarrow> nat \<Rightarrow> fl) \<Rightarrow> int list \<Rightarrow> (real \<Rightarrow> real) \<Rightarrow> LocalOutlierProbability
     \<Rightarrow> error + LocalOutlierProbability \<times> fl list" where
  "fit mem ids erf self =
     (case fit_store mem ids erf self of
        Inl e \<Rightarrow> Inl e
      | Inr (self1, s9) \<Rightarrow>
          Inr (self1\<lparr>local_outlier_probabilities := Some (column 10 s9)\<rparr>, column 10 s9))"

section \<open>Signs of values\<close>

text \<open>A value that is not negative, and a value that is positive; NaN is neither.\<close>

fun fl_nonneg :: "fl \<Rightarrow> bool" where
  "fl_nonneg (Fin a) = (0 \<le> a)"
| "fl_nonneg PInf = True"
| "fl_nonneg _ = False"

fun fl_pos :: "fl \<Rightarrow> bool" where
  "fl_pos (Fin a) = (0 < a)"
| "fl_pos PInf = True"
| "fl_pos _ = False"

section \<open>Tables of a single cluster\<close>

text \<open>A table that is not empty and whose rows all carry the same cluster id, not NaN.\<close>

definition one_cluster :: "fl \<Rightarrow> fl list list \<Rightarrow> bool" where
  "one_cluster cluster_id data_store =
     (data_store \<noteq> [] \<and> \<not> fl_isnan cluster_id
      \<and> list_all (\<lambda>row. row \<noteq> [] \<and> row ! 0 = cluster_id) data_store)"

text \<open>The table with another cluster id in column 0 of every row.\<close>

definition relabel :: "fl \<Rightarrow> fl list list \<Rightarrow> fl list list" where
  "relabel cluster_id data_store = map (\<lambda>row. cluster_id # tl row) data_store"

section \<open>Notions of the specification\<close>

text \<open>The number of members of the smallest cluster of a label vector that is not empty.\<close>

definition cluster_size :: "int list \<Rightarrow> int \<Rightarrow> nat" where
  "cluster_size vals cluster_id = length (filter (\<lambda>x. x = cluster_id) vals)"

definition smallest_cluster_size :: "int list \<Rightarrow> nat" where
  "smallest_cluster_size vals = Min (set (map (cluster_size vals) vals))"

text \<open>
  Section 4.1 of the specification, in its words: the Euclidean distance of two rows, and
  for the member at position \<open>i\<close> of a cluster the mean of the \<open>n\<close> smallest distances to
  the other members.
\<close>

definition euclidean_distance :: "fl list \<Rightarrow> fl list \<Rightarrow> fl" where
  "euclidean_distance p q =
     fl_sqrt (fl_sum (map (\<lambda>(a, b). fl_mul (fl_sub a b) (fl_sub a b)) (zip p q)))"

definition spec_neighbor_distances :: "fl list list \<Rightarrow> nat \<Rightarrow> nat \<Rightarrow> fl list" where
  "spec_neighbor_distances points n i =
     take n (np_sort (map (\<lambda>j. euclidean_distance (points ! i) (points ! j))
                        (filter (\<lambda>j. j \<noteq> i) [0..<length points])))"

definition spec_context_distance :: "fl list list \<Rightarrow> nat \<Rightarrow> nat \<Rightarrow> fl" where
  "spec_context_distance points n i = fl_mean (spec_neighbor_distances points n i)"

text \<open>Rows in another order: row \<open>i\<close> of the result is row \<open>p ! i\<close> of the argument.\<close>

definition permute :: "nat list \<Rightarrow> 'a list \<Rightarrow> 'a list" where
  "permute p xs = map (\<lambda>i. xs ! i) p"

section \<open>Inputs and runs used below\<close>

text \<open>
  An object as \<^verbatim>\<open>__init__\<close> leaves it, for a data matrix and a neighbor count, with the
  default extent 0.997.
\<close>

definition fresh :: "fl list list \<Rightarrow> int \<Rightarrow> labels option \<Rightarrow> LocalOutlierProbability" where
  "fresh data0 n_neighbors0 cluster_labels0 =
     \<lparr>data = data0, extent = Fin (997 / 1000), n_neighbors = n_neighbors0,
      cluster_labels = cluster_labels0, local_outlier_probabilities = None,
      cluster_labels_u = None\<rparr>"

text \<open>Three points of the plane on a line through the origin, 5 apart.\<close>

definition plane_data :: "fl list list" where
  "plane_data = [[Fin 0, Fin 0], [Fin 3, Fin 4], [Fin 6, Fin 8]]"

text \<open>Three points of the real line.\<close>

definition line_data :: "fl list list" where
  "line_data = [[Fin 0], [Fin 1], [Fin 3]]"

text \<open>Three copies of the origin of 3-space and one point away from it, in two orders.\<close>

definition far_last :: "fl list list" where
  "far_last = [[Fin 0, Fin 0, Fin 0], [Fin 0, Fin 0, Fin 0], [Fin 0, Fin 0, Fin 0],
               [Fin 0, Fin 0, Fin 3]]"

definition far_first :: "fl list list" where
  "far_first = [[Fin 0, Fin 0, Fin 3], [Fin 0, Fin 0, Fin 0], [Fin 0, Fin 0, Fin 0],
                [Fin 0, Fin 0, Fin 0]]"

text \<open>Two clusters on the line: the points 0, 1, 3 and three copies of the point 5.\<close>

definition two_clusters :: LocalOutlierProbability where
  "two_clusters =
     fresh [[Fin 0], [Fin 1], [Fin 3], [Fin 5], [Fin 5], [Fin 5]] 2
       (Some (Ndarray [0, 0, 0, 1, 1, 1]))"

definition two_clusters_table :: "fl list list" where
  "two_clusters_table =
     [[Fin 0, Fin 0, Fin 0], [Fin 0, Fin (3 / 2), Fin 2], [Fin 0, Fin (5 / 2), Fin 3],
      [Fin 1, Fin 0, Fin 0], [Fin 1, Fin 0, Fin 0], [Fin 1, Fin 0, Fin 0]]"

text \<open>Memory that \<^verbatim>\<open>np.empty\<close> finds zeroed.\<close>

definition zeroed :: "nat \<Rightarrow> nat \<Rightarrow> fl" where
  "zeroed i k = Fin 0"

text \<open>
  A function with the sign and the range of the error function. It stands for
  \<^verbatim>\<open>math.erf\<close> where a closed instance of a statement about every \<open>erf\<close> is given.
\<close>

definition erf_like :: "real \<Rightarrow> real" where
  "erf_like x = x / (1 + \<bar>x\<bar>)"

text \<open>
  The table at the end of \<open>fit\<close> for \<open>far_last\<close> with two neighbors, and the scores, its
  last column.
\<close>

definition far_last_row :: "(real \<Rightarrow> real) \<Rightarrow> real \<Rightarrow> fl list" where
  "far_last_row erf plof =
     [Fin 0, Fin (250 / 997), Fin plof, Fin 3, Fin (997 / 1000 * sqrt 3),
      local_outlier_probability erf (Fin plof) (Fin (997 / 1000 * sqrt 3))]"

definition far_last_table :: "(real \<Rightarrow> real) \<Rightarrow> fl list list" where
  "far_last_table erf =
     [[Fin 0, Fin 0, Fin 0, Fin 1, PInf] @ far_last_row erf (- 1),
      [Fin 0, Fin 0, Fin 0, Fin 1, PInf] @ far_last_row erf (- 1),
      [Fin 0, Fin 0, Fin 0, Fin 1, PInf] @ far_last_row erf (- 1),
      [Fin 0, Fin 1, Fin 1, Fin 1, Fin 1, Fin (1000 / 997), Fin (250 / 997), Fin 3, Fin 3,
       Fin (997 / 1000 * sqrt 3),
       local_outlier_probability erf (Fin 3) (Fin (997 / 1000 * sqrt 3))]]"

definition far_last_scores :: "(real \<Rightarrow> real) \<Rightarrow> fl list" where
  "far_last_scores erf =
     [local_outlier_probability erf (Fin (- 1)) (Fin (997 / 1000 * sqrt 3)),
      local_outlier_probability erf (Fin (- 1)) (Fin (997 / 1000 * sqrt 3)),
      local_outlier_probability erf (Fin (- 1)) (Fin (997 / 1000 * sqrt 3)),
      local_outlier_probability erf (Fin 3) (Fin (997 / 1000 * sqrt 3))]"

section \<open>Lemmas about the table and the stages\<close>

subsection \<open>Tables\<close>

lemma length_hstack [simp]: "length (hstack s col) = min (length s) (length col)"
  by (simp add: hstack_def)

lemma nth_hstack [simp]:
  "i < length s \<Longrightarrow> i < length col \<Longrightarrow> hstack s col ! i = s ! i @ [col ! i]"
  by (simp add: hstack_def)

lemma length_column [simp]: "length (column k s) = length s"
  by (simp add: column_def)

lemma nth_column [simp]: "i < length s \<Longrightarrow> column k s ! i = s ! i ! k"
  by (simp add: column_def)

lemma hstack_map: "hstack s (map f s) = map (\<lambda>row. row @ [f row]) s"
  by (simp add: hstack_def zip_map2 zip_same_conv_map)

lemma dict_column_length: "dict_column d xs = Inr vs \<Longrightarrow> length vs = length xs"
  by (induction xs arbitrary: vs) (auto split: sum.splits)

lemma dict_column_nth:
  "dict_column d xs = Inr vs \<Longrightarrow> i < length xs \<Longrightarrow> dict_get d (xs ! i) = Inr (vs ! i)"
proof (induction xs arbitrary: vs i)
  case Nil
  then show ?case by simp
next
  case (Cons x xs)
  then show ?case by (cases i) (auto split: sum.splits)
qed

lemma broadcast_length: "broadcast d s = Inr s1 \<Longrightarrow> length s1 = length s"
  by (auto simp: broadcast_def dict_column_length split: sum.splits)

lemma broadcast_nth:
  assumes "broadcast d s = Inr s1" "i < length s"
  shows "\<exists>v. dict_get d (s ! i ! 0) = Inr v \<and> s1 ! i = s ! i @ [v]"
proof -
  from assms(1) obtain col where c: "dict_column d (column 0 s) = Inr col" and s1: "s1 = hstack s col"
    by (auto simp: broadcast_def split: sum.splits)
  from c have l: "length col = length s" by (auto dest: dict_column_length)
  from dict_column_nth [OF c, of i] assms(2) have "dict_get d (s ! i ! 0) = Inr (col ! i)" by simp
  with s1 l assms(2) show ?thesis by simp
qed

lemma ev_loop_lookup:
  "ev_loop ev u d x = (if x \<in> set u then Some (ev x) else d x)"
  by (induction u arbitrary: d) auto

subsection \<open>Shape of the table through stage 1\<close>

lemma neighbor_row_length: "neighbor_row self c pv vec = Inr row \<Longrightarrow> length row = 3"
  by (auto simp: neighbor_row_def Let_def split: list.splits)

lemma distances_rows_shape:
  "distances_rows self c indices pv vecs s = Inr s1 \<Longrightarrow>
   length s1 = length s \<and> (list_all (\<lambda>row. length row = 3) s \<longrightarrow> list_all (\<lambda>row. length row = 3) s1)"
proof (induction vecs arbitrary: s)
  case Nil
  then show ?case by simp
next
  case (Cons vec vecs)
  from Cons.prems obtain row where row: "neighbor_row self c pv vec = Inr row"
    and r: "distances_rows self c indices pv vecs (s[indices ! vec := row]) = Inr s1"
    by (auto split: sum.splits if_splits)
  from row have "length row = 3" by (rule neighbor_row_length)
  then have "list_all (\<lambda>row. length row = 3) s \<Longrightarrow> list_all (\<lambda>row. length row = 3) (s[indices ! vec := row])"
    by (auto simp: list_all_iff dest!: set_update_subset_insert [THEN subsetD])
  with Cons.IH [OF r] show ?case by auto
qed

lemma distances_rows_fold:
  assumes "\<forall>vec\<in>set vecs. indices ! vec < length s \<and> \<not> isl (neighbor_row self c pv vec)"
  shows "distances_rows self c indices pv vecs s =
         Inr (fold (\<lambda>vec t. t[indices ! vec := projr (neighbor_row self c pv vec)]) vecs s)"
  using assms
proof (induction vecs arbitrary: s)
  case Nil
  then show ?case by simp
next
  case (Cons vec vecs)
  then obtain row where row: "neighbor_row self c pv vec = Inr row"
    by (cases "neighbor_row self c pv vec") auto
  with Cons show ?case by simp
qed

lemma distances_Cons_Inr:
  assumes "distances self (c # ids) s = Inr s1"
  obtains s0 where
    "distances_rows self c (where_eq (cluster_labels_of self) c)
       (map (\<lambda>i. data self ! i) (where_eq (cluster_labels_of self) c))
       [0..<length (where_eq (cluster_labels_of self) c)] s = Inr s0"
    "list_ex fl_truthy (column 1 s0)" "distances self ids s0 = Inr s1"
    "\<not> list_ex (\<lambda>i. length (data self) \<le> i) (where_eq (cluster_labels_of self) c)"
  using assms by (auto simp: Let_def split: if_splits sum.splits)

lemma distances_shape:
  "distances self ids s = Inr s1 \<Longrightarrow>
   length s1 = length s \<and> (list_all (\<lambda>row. length row = 3) s \<longrightarrow> list_all (\<lambda>row. length row = 3) s1)"
proof (induction ids arbitrary: s)
  case Nil
  then show ?case by simp
next
  case (Cons c ids)
  from Cons.prems obtain s0 indices pv vecs where
    a: "distances_rows self c indices pv vecs s = Inr s0" and b: "distances self ids s0 = Inr s1"
    by (rule distances_Cons_Inr)
  from distances_rows_shape [OF a] Cons.IH [OF b] show ?case by auto
qed

lemma store_shape: "length (store mem self) = n_observations self \<and> list_all (\<lambda>row. length row = 3) (store mem self)"
  by (simp add: store_def list_all_iff)

subsection \<open>What each later stage appends to a row\<close>

lemma ssd_row:
  assumes "ssd self s = Inr (self1, s2)"
  shows "length s2 = length s" and "extent self1 = extent self"
    and "cluster_labels_u self1 = Some (np_unique (column 0 s))"
    and "i < length s \<Longrightarrow> \<exists>v. s2 ! i = s ! i @ [v]"
proof -
  from assms obtain d where b: "broadcast d s = Inr s2"
    and s: "self1 = self\<lparr>cluster_labels_u := Some (np_unique (column 0 s))\<rparr>"
    by (auto simp: ssd_def Let_def split: sum.splits)
  from b show "length s2 = length s" by (rule broadcast_length)
  from s show "extent self1 = extent self" by simp
  from s show "cluster_labels_u self1 = Some (np_unique (column 0 s))" by simp
  show "i < length s \<Longrightarrow> \<exists>v. s2 ! i = s ! i @ [v]"
    using broadcast_nth [OF b, of i] by auto
qed

lemma standard_distances_row:
  "length (standard_distances s) = length s"
  "i < length s \<Longrightarrow> standard_distances s ! i = s ! i @ [standard_distance (s ! i ! 1) (s ! i ! 3)]"
  by (simp_all add: standard_distances_def)

lemma prob_set_distances_row:
  "length (prob_set_distances self s) = length s"
  "i < length s \<Longrightarrow> prob_set_distances self s ! i = s ! i @ [prob_set_distance (extent self) (s ! i ! 4)]"
  by (simp_all add: prob_set_distances_def)

lemma prob_local_outlier_factors_row:
  "length (prob_local_outlier_factors s) = length s"
  "i < length s \<Longrightarrow> prob_local_outlier_factors s ! i = s ! i @ [prob_outlier_factor (s ! i ! 5) (s ! i ! 6)]"
  by (simp_all add: prob_local_outlier_factors_def)

lemma norm_prob_local_outlier_factors_row:
  "length (norm_prob_local_outlier_factors self s) = length s"
  "i < length s \<Longrightarrow> norm_prob_local_outlier_factors self s ! i = s ! i @ [norm_prob_outlier_factor (extent self) (s ! i ! 8)]"
  by (simp_all add: norm_prob_local_outlier_factors_def)

lemma local_outlier_probabilities_stage_row:
  assumes "local_outlier_probabilities_stage erf s = Inr s1"
  shows "length s1 = length s" and "s \<noteq> []"
    and "i < length s \<Longrightarrow> s1 ! i = s ! i @ [local_outlier_probability erf (s ! i ! 7) (s ! i ! 9)]"
  using assms by (auto simp: local_outlier_probabilities_stage_def split: if_splits)

lemma prob_set_distances_ev_row:
  assumes "prob_set_distances_ev self s = Inr s1"
  shows "length s1 = length s"
    and "i < length s \<Longrightarrow> s1 ! i = s ! i @ [cluster_ev_prob_set_distance s (s ! i ! 0)]"
proof -
  from assms obtain u where u: "cluster_labels_u self = Some u"
    and b: "broadcast (ev_loop (cluster_ev_prob_set_distance s) u Map.empty) s = Inr s1"
    by (auto simp: prob_set_distances_ev_def split: option.splits)
  from b show "length s1 = length s" by (rule broadcast_length)
  show "i < length s \<Longrightarrow> s1 ! i = s ! i @ [cluster_ev_prob_set_distance s (s ! i ! 0)]"
    using broadcast_nth [OF b, of i]
    by (auto simp: dict_get_def ev_loop_lookup split: if_splits)
qed

lemma prob_local_outlier_factors_ev_row:
  assumes "prob_local_outlier_factors_ev self s = Inr s1"
  shows "length s1 = length s"
    and "i < length s \<Longrightarrow> s1 ! i = s ! i @ [cluster_ev_plof_sq s (s ! i ! 0)] \<and> \<not> fl_isnan (s ! i ! 0)"
proof -
  from assms obtain u where u: "cluster_labels_u self = Some u"
    and b: "broadcast (ev_loop (cluster_ev_plof_sq s) u Map.empty) s = Inr s1"
    by (auto simp: prob_local_outlier_factors_ev_def split: option.splits)
  from b show "length s1 = length s" by (rule broadcast_length)
  show "i < length s \<Longrightarrow> s1 ! i = s ! i @ [cluster_ev_plof_sq s (s ! i ! 0)] \<and> \<not> fl_isnan (s ! i ! 0)"
    using broadcast_nth [OF b, of i]
    by (auto simp: dict_get_def ev_loop_lookup split: if_splits)
qed

lemma length3E:
  assumes "length (row :: fl list) = 3"
  obtains c cd cl where "row = [c, cd, cl]"
proof -
  from assms obtain c r1 where "row = c # r1" "length r1 = 2" by (cases row) auto
  moreover then obtain cd r2 where "r1 = cd # r2" "length r2 = 1" by (cases r1) auto
  moreover then obtain cl where "r2 = [cl]" by (cases r2) auto
  ultimately show ?thesis using that by simp
qed

lemma fit_store_stages:
  assumes "fit_store mem ids erf self = Inr (self1, s9)"
  obtains s1 s2 s5 s7 where
    "distances self ids (store mem self) = Inr s1"
    "ssd self s1 = Inr (self1, s2)"
    "prob_set_distances_ev self1 (prob_set_distances self1 (standard_distances s2)) = Inr s5"
    "prob_local_outlier_factors_ev self1 (prob_local_outlier_factors s5) = Inr s7"
    "local_outlier_probabilities_stage erf (norm_prob_local_outlier_factors self1 s7) = Inr s9"
  using assms by (auto simp: fit_store_def later_stages_def split: sum.splits prod.splits)


lemma fit_store_row:
  assumes "fit_store mem ids erf self = Inr (self1, s9)" and "i < length s9"
  shows "\<exists>c cd cl a3 sd psd a6 plof a8 nplof s6 s2 s1.
      s9 ! i = [c, cd, cl, a3, sd, psd, a6, plof, a8, nplof, local_outlier_probability erf plof nplof]
    \<and> sd = standard_distance cd a3
    \<and> psd = prob_set_distance (extent self) sd
    \<and> plof = prob_outlier_factor psd a6
    \<and> nplof = norm_prob_outlier_factor (extent self) a8
    \<and> a8 = cluster_ev_plof_sq s6 c \<and> \<not> fl_isnan c
    \<and> i < length s6 \<and> s6 ! i = [c, cd, cl, a3, sd, psd, a6, plof]
    \<and> a6 = cluster_ev_prob_set_distance (prob_set_distances self (standard_distances s2)) c
    \<and> list_all (\<lambda>row. length row = 4) s2
    \<and> distances self ids (store mem self) = Inr s1 \<and> s1 ! i = [c, cd, cl]"
proof -
  from assms(1) obtain s1 s2 s5 s7 where
    a: "distances self ids (store mem self) = Inr s1"
    and b: "ssd self s1 = Inr (self1, s2)"
    and c: "prob_set_distances_ev self1 (prob_set_distances self1 (standard_distances s2)) = Inr s5"
    and d: "prob_local_outlier_factors_ev self1 (prob_local_outlier_factors s5) = Inr s7"
    and e: "local_outlier_probabilities_stage erf (norm_prob_local_outlier_factors self1 s7) = Inr s9"
    by (rule fit_store_stages)
  let ?s3 = "standard_distances s2"
  let ?s4 = "prob_set_distances self1 ?s3"
  let ?s6 = "prob_local_outlier_factors s5"
  let ?s8 = "norm_prob_local_outlier_factors self1 s7"
  have ext: "extent self1 = extent self" by (rule ssd_row(2) [OF b])
  have l9: "length s9 = length ?s8" by (rule local_outlier_probabilities_stage_row(1) [OF e])
  have l7: "length s7 = length ?s6" by (rule prob_local_outlier_factors_ev_row(1) [OF d])
  have l5: "length s5 = length ?s4" by (rule prob_set_distances_ev_row(1) [OF c])
  have l2: "length s2 = length s1" by (rule ssd_row(1) [OF b])
  from l9 l7 l5 l2 assms(2) have i: "i < length s1" "i < length s2" "i < length ?s3" "i < length ?s4"
    "i < length s5" "i < length ?s6" "i < length s7" "i < length ?s8"
    by (simp_all add: norm_prob_local_outlier_factors_row prob_local_outlier_factors_row
        prob_set_distances_row standard_distances_row)
  from distances_shape [OF a] store_shape i(1) have "length (s1 ! i) = 3"
    by (auto simp: list_all_length)
  then obtain c cd cl where r1: "s1 ! i = [c, cd, cl]" by (rule length3E)
  from ssd_row(4) [OF b i(1)] r1 obtain a3 where r2: "s2 ! i = [c, cd, cl, a3]" by auto
  have w2: "list_all (\<lambda>row. length row = 4) s2"
    unfolding list_all_length
  proof (intro allI impI)
    fix j assume j: "j < length s2"
    with l2 distances_shape [OF a] store_shape have "length (s1 ! j) = 3"
      by (auto simp: list_all_length)
    with ssd_row(4) [OF b, of j] j l2 show "length (s2 ! j) = 4" by auto
  qed
  define sd where "sd = standard_distance cd a3"
  define psd where "psd = prob_set_distance (extent self) sd"
  from r2 i(2) have r3: "?s3 ! i = [c, cd, cl, a3, sd]"
    by (simp add: standard_distances_row sd_def)
  from r3 i(3) have r4: "?s4 ! i = [c, cd, cl, a3, sd, psd]"
    by (simp add: prob_set_distances_row psd_def ext)
  define a6 where "a6 = cluster_ev_prob_set_distance (prob_set_distances self (standard_distances s2)) c"
  have s4: "prob_set_distances self1 (standard_distances s2) = prob_set_distances self (standard_distances s2)"
    by (simp add: prob_set_distances_def ext)
  from prob_set_distances_ev_row(2) [OF c i(4)] r4
  have r5: "s5 ! i = [c, cd, cl, a3, sd, psd, a6]" by (simp add: a6_def s4)
  define plof where "plof = prob_outlier_factor psd a6"
  from r5 i(5) have r6: "?s6 ! i = [c, cd, cl, a3, sd, psd, a6, plof]"
    by (simp add: prob_local_outlier_factors_row plof_def)
  define a8 where "a8 = cluster_ev_plof_sq ?s6 c"
  from prob_local_outlier_factors_ev_row(2) [OF d i(6)] r6
  have r7: "s7 ! i = [c, cd, cl, a3, sd, psd, a6, plof, a8]" and nn: "\<not> fl_isnan c"
    by (simp_all add: a8_def)
  define nplof where "nplof = norm_prob_outlier_factor (extent self) a8"
  from r7 i(7) have r8: "?s8 ! i = [c, cd, cl, a3, sd, psd, a6, plof, a8, nplof]"
    by (simp add: norm_prob_local_outlier_factors_row nplof_def ext)
  from local_outlier_probabilities_stage_row(3) [OF e i(8)] r8
  have r9: "s9 ! i = [c, cd, cl, a3, sd, psd, a6, plof, a8, nplof, local_outlier_probability erf plof nplof]"
    by simp
  from r9 r6 i(6) nn sd_def psd_def plof_def a8_def nplof_def a6_def w2 a r1 show ?thesis by blast
qed

subsection \<open>Signs through the arithmetic\<close>

lemma fl_add_nonneg: "fl_nonneg a \<Longrightarrow> fl_nonneg b \<Longrightarrow> fl_nonneg (fl_add a b)"
  by (cases a; cases b) auto

lemma fl_add_pos1: "fl_pos a \<Longrightarrow> fl_nonneg b \<Longrightarrow> fl_pos (fl_add a b)"
  by (cases a; cases b) auto

lemma fl_add_pos2: "fl_nonneg a \<Longrightarrow> fl_pos b \<Longrightarrow> fl_pos (fl_add a b)"
  by (cases a; cases b) auto

lemma fl_pos_nonneg: "fl_pos a \<Longrightarrow> fl_nonneg a"
  by (cases a) auto

lemma fl_square_nonneg: "\<not> fl_isnan x \<Longrightarrow> fl_nonneg (fl_mul x x)"
  by (cases x) auto

lemma fl_square_pos: "a \<noteq> 0 \<Longrightarrow> fl_pos (fl_mul (Fin a) (Fin a))"
  by (auto simp: zero_less_mult_iff neq_iff)

lemma foldl_add_nonneg:
  "fl_nonneg acc \<Longrightarrow> list_all fl_nonneg xs \<Longrightarrow> fl_nonneg (foldl fl_add acc xs)"
  by (induction xs arbitrary: acc) (auto simp: fl_add_nonneg)

lemma foldl_add_pos_acc:
  "fl_pos acc \<Longrightarrow> list_all fl_nonneg xs \<Longrightarrow> fl_pos (foldl fl_add acc xs)"
  by (induction xs arbitrary: acc) (auto simp: fl_add_pos1)

lemma foldl_add_pos:
  "fl_nonneg acc \<Longrightarrow> list_all fl_nonneg xs \<Longrightarrow> x \<in> set xs \<Longrightarrow> fl_pos x
   \<Longrightarrow> fl_pos (foldl fl_add acc xs)"
proof (induction xs arbitrary: acc)
  case Nil
  then show ?case by simp
next
  case (Cons y ys)
  show ?case
  proof (cases "x = y")
    case True
    with Cons.prems have "fl_pos (fl_add acc y)" by (simp add: fl_add_pos2)
    with Cons.prems show ?thesis by (simp add: foldl_add_pos_acc)
  next
    case False
    with Cons.prems have "x \<in> set ys" "fl_nonneg (fl_add acc y)" "list_all fl_nonneg ys"
      by (simp_all add: fl_add_nonneg)
    with Cons.IH Cons.prems(4) show ?thesis by simp
  qed
qed

lemma fl_sum_nonneg: "list_all fl_nonneg xs \<Longrightarrow> fl_nonneg (fl_sum xs)"
  by (simp add: fl_sum_def foldl_add_nonneg)

lemma fl_sum_pos: "list_all fl_nonneg xs \<Longrightarrow> x \<in> set xs \<Longrightarrow> fl_pos x \<Longrightarrow> fl_pos (fl_sum xs)"
  by (simp add: fl_sum_def foldl_add_pos)

lemma fl_div_count_pos: "fl_pos v \<Longrightarrow> 0 < n \<Longrightarrow> fl_pos (fl_div v (Fin (real n)))"
  by (cases v) (auto simp: signed_inf_def)

lemma fl_sqrt_pos: "fl_pos v \<Longrightarrow> fl_pos (fl_sqrt v)"
  by (cases v) auto

lemma fl_mul_pos: "fl_pos a \<Longrightarrow> fl_pos b \<Longrightarrow> fl_pos (fl_mul a b)"
  by (cases a; cases b) (auto simp: signed_inf_def)

lemma fl_div_neg_pos:
  "x < 0 \<Longrightarrow> fl_pos d \<Longrightarrow> \<exists>y\<le>0. fl_div (Fin x) d = Fin y"
  by (cases d) (auto simp: divide_nonpos_pos)

text \<open>The second moment of a cluster that holds a negative PLOF is positive.\<close>

lemma cluster_ev_plof_sq_pos:
  assumes "i < length s" and "s ! i ! 0 = c" and "\<not> fl_isnan c" and "s ! i ! 7 = Fin x" and "x < 0"
  shows "fl_pos (cluster_ev_plof_sq s c)"
proof -
  let ?xs = "nonan (cluster_column 7 s c)"
  from assms(1-3) have "s ! i \<in> set (filter (\<lambda>row. fl_eq (row ! 0) c) s)"
    by (auto simp: fl_eq_def)
  with assms(4) have m: "Fin x \<in> set ?xs"
    by (force simp: nonan_def cluster_column_def column_def)
  then have len: "0 < length ?xs" by (cases ?xs) auto
  have "list_all fl_nonneg (map (\<lambda>x. fl_mul x x) ?xs)"
    by (auto simp: list_all_iff nonan_def intro: fl_square_nonneg)
  moreover from m have "fl_mul (Fin x) (Fin x) \<in> set (map (\<lambda>x. fl_mul x x) ?xs)" by force
  moreover from assms(5) have "fl_pos (fl_mul (Fin x) (Fin x))" by (intro fl_square_pos) simp
  ultimately have "fl_pos (fl_sum (map (\<lambda>x. fl_mul x x) ?xs))" by (rule fl_sum_pos)
  with len show ?thesis
    by (simp add: cluster_ev_plof_sq_def Let_def fl_div_count_pos del: fl_div.simps)
qed

lemma negative_plof_scores_zero:
  assumes "x < 0" and "fl_pos a8" and "0 < e" and "\<forall>y\<le>0. erf y \<le> 0"
  shows "local_outlier_probability erf (Fin x) (norm_prob_outlier_factor (Fin e) a8) = Fin 0"
proof -
  from assms(2,3) have "fl_pos (fl_mul (Fin e) (fl_sqrt a8))"
    by (intro fl_mul_pos fl_sqrt_pos) simp_all
  then have "fl_pos (fl_mul (fl_mul (Fin e) (fl_sqrt a8)) (fl_sqrt (Fin 2)))"
    by (rule fl_mul_pos) simp
  with assms(1) obtain y where
    y: "y \<le> 0" "fl_div (Fin x) (fl_mul (fl_mul (Fin e) (fl_sqrt a8)) (fl_sqrt (Fin 2))) = Fin y"
    by (blast dest: fl_div_neg_pos)
  with assms(4) have "erf y \<le> 0" by simp
  with y show ?thesis
    by (simp add: local_outlier_probability_def norm_prob_outlier_factor_def del: fl_sqrt.simps)
qed

subsection \<open>A PLOF below zero is finite\<close>

lemma prob_set_distance_sign:
  assumes "0 < e"
  shows "fl_nonneg (prob_set_distance (Fin e) (standard_distance cd a3))
       \<or> fl_isnan (prob_set_distance (Fin e) (standard_distance cd a3))"
proof (cases "fl_div a3 (fl_fabs cd)")
  case (Fin a)
  with assms show ?thesis
    by (auto simp: prob_set_distance_def standard_distance_def signed_inf_def)
next
  case PInf
  with assms show ?thesis
    by (simp add: prob_set_distance_def standard_distance_def signed_inf_def)
next
  case NInf
  then show ?thesis by (simp add: prob_set_distance_def standard_distance_def)
next
  case NaN
  then show ?thesis by (simp add: prob_set_distance_def standard_distance_def)
qed

lemma standard_distances_map:
  "standard_distances s = map (\<lambda>row. row @ [standard_distance (row ! 1) (row ! 3)]) s"
  by (simp add: standard_distances_def hstack_map)

lemma prob_set_distances_map:
  "prob_set_distances self s = map (\<lambda>row. row @ [prob_set_distance (extent self) (row ! 4)]) s"
  by (simp add: prob_set_distances_def hstack_map)

lemma column5_prob_set_distances:
  assumes "list_all (\<lambda>row. length row = 4) s2" and "v \<in> set (column 5 (prob_set_distances self (standard_distances s2)))"
  shows "\<exists>cd a3. v = prob_set_distance (extent self) (standard_distance cd a3)"
proof -
  from assms(2) obtain row where row: "row \<in> set s2"
    and v: "v = ((row @ [standard_distance (row ! 1) (row ! 3)])
                 @ [prob_set_distance (extent self) ((row @ [standard_distance (row ! 1) (row ! 3)]) ! 4)]) ! 5"
    by (auto simp: column_def prob_set_distances_map standard_distances_map)
  from assms(1) row have "length row = 4" by (simp add: list_all_iff)
  with v show ?thesis by (auto simp: nth_append)
qed

lemma fl_mean_sign:
  assumes "list_all fl_nonneg xs"
  shows "fl_nonneg (fl_mean xs) \<or> fl_isnan (fl_mean xs)"
proof -
  from assms have "fl_nonneg (fl_sum xs)" by (rule fl_sum_nonneg)
  then show ?thesis
    by (cases "fl_sum xs") (auto simp: fl_mean_def signed_inf_def)
qed

lemma cluster_ev_prob_set_distance_sign:
  assumes "list_all (\<lambda>row. length row = 4) s2" and "extent self = Fin e" and "0 < e"
  shows "fl_nonneg (cluster_ev_prob_set_distance (prob_set_distances self (standard_distances s2)) c)
       \<or> fl_isnan (cluster_ev_prob_set_distance (prob_set_distances self (standard_distances s2)) c)"
proof -
  let ?s4 = "prob_set_distances self (standard_distances s2)"
  have "set (cluster_column 5 ?s4 c) \<subseteq> set (column 5 ?s4)"
    by (auto simp: cluster_column_def column_def)
  then have "fl_nonneg v" if "v \<in> set (nonan (cluster_column 5 ?s4 c))" for v
  proof -
    from that \<open>set (cluster_column 5 ?s4 c) \<subseteq> set (column 5 ?s4)\<close>
    have "v \<in> set (column 5 ?s4)" and "\<not> fl_isnan v" by (auto simp: nonan_def)
    with column5_prob_set_distances [OF assms(1)] prob_set_distance_sign [OF assms(3)] assms(2)
    show ?thesis by metis
  qed
  then have "list_all fl_nonneg (nonan (cluster_column 5 ?s4 c))" by (simp add: list_all_iff)
  then show ?thesis unfolding cluster_ev_prob_set_distance_def by (rule fl_mean_sign)
qed

lemma prob_outlier_factor_negative:
  assumes "fl_nonneg psd \<or> fl_isnan psd" and "fl_nonneg a6 \<or> fl_isnan a6"
    and "fl_lt (prob_outlier_factor psd a6) (Fin 0)"
  shows "\<exists>x<0. prob_outlier_factor psd a6 = Fin x"
  using assms
  by (cases psd; cases a6)
     (auto simp: prob_outlier_factor_def fl_sub_def signed_inf_def split: if_splits)

lemma fit_of_fit_store:
  "fit_store mem ids erf self = Inr (self0, s9) \<Longrightarrow>
   fit mem ids erf self =
     Inr (self0\<lparr>local_outlier_probabilities := Some (column 10 s9)\<rparr>, column 10 s9)"
  by (simp add: fit_def)




section \<open>One cluster: stage 1\<close>

lemma upt_4: "[0..<4] = [0, Suc 0, 2, 3]" by (simp add: upt_rec)
lemma upt_3: "[0..<3] = [0, Suc 0, 2]" by (simp add: upt_rec)

lemma where_eq_replicate: "where_eq (Ndarray (replicate n c)) c = [0..<n]"
  by (auto intro: filter_True)

lemma cluster_labels_of_fresh_None:
  "cluster_labels_of (fresh d n None) = Ndarray (replicate (length d) 0)"
  by (simp add: cluster_labels_of_def fresh_def)

lemma fold_update_upt:
  "k \<le> length s \<Longrightarrow> fold (\<lambda>vec t. t[[0..<length s] ! vec := r vec]) [0..<k] s = map r [0..<k] @ drop k s"
proof (induction k)
  case 0
  then show ?case by simp
next
  case (Suc k)
  then have k: "k < length s" by simp
  then have "(map r [0..<k] @ drop k s)[k := r k] = map r [0..<k] @ (drop k s)[0 := r k]"
    by (simp add: list_update_append)
  also from k have "(drop k s)[0 := r k] = r k # drop (Suc k) s"
    by (simp add: Cons_nth_drop_Suc [symmetric])
  finally show ?case using Suc k by simp
qed

lemma distances_rows_single:
  assumes "length s = m" and "\<forall>vec<m. \<not> isl (neighbor_row self c pv vec)"
  shows "distances_rows self c [0..<m] pv [0..<m] s =
         Inr (map (\<lambda>vec. projr (neighbor_row self c pv vec)) [0..<m])"
proof -
  from assms have "distances_rows self c [0..<m] pv [0..<m] s =
      Inr (fold (\<lambda>vec t. t[[0..<m] ! vec := projr (neighbor_row self c pv vec)]) [0..<m] s)"
    by (intro distances_rows_fold) simp
  with assms(1) fold_update_upt [of m s "\<lambda>vec. projr (neighbor_row self c pv vec)"]
  show ?thesis by simp
qed

lemma distances_single_cluster:
  assumes "cluster_labels_of self = Ndarray (replicate (length (data self)) c)"
    and "length s = length (data self)"
    and "list_all (\<lambda>vec. \<not> isl (neighbor_row self c (data self) vec)) [0..<length (data self)]"
  shows "distances self [c] s =
     (let s1 = map (\<lambda>vec. projr (neighbor_row self c (data self) vec)) [0..<length (data self)]
      in if list_ex fl_truthy (column 1 s1) then Inr s1 else Inl SystemExit)"
proof -
  have pv: "map (\<lambda>i. data self ! i) [0..<length (data self)] = data self" by (rule map_nth)
  from assms(2,3) show ?thesis
    by (simp add: assms(1) where_eq_replicate pv distances_rows_single Let_def list_ex_iff list_all_iff del: upt_Suc)
qed

lemmas eval_neighbor_row = neighbor_row_def neighborhood_def fresh_def pair_distance_def tril_diff_def
  upt_rec [of 0] upt_rec [of 1] upt_rec [of 2] fl_sub_def fl_mean_def fl_sum_def np_sort_def py_slice_def

lemma far_last_rows:
  "neighbor_row (fresh far_last 2 None) 0 far_last 0 = Inr [Fin 0, Fin 0, Fin 0]"
  "neighbor_row (fresh far_last 2 None) 0 far_last (Suc 0) = Inr [Fin 0, Fin 0, Fin 0]"
  "neighbor_row (fresh far_last 2 None) 0 far_last 2 = Inr [Fin 0, Fin 0, Fin 0]"
  "neighbor_row (fresh far_last 2 None) 0 far_last 3 = Inr [Fin 0, Fin 1, Fin 1]"
  by (simp_all add: far_last_def eval_neighbor_row)

lemma far_last_distances:
  "distances (fresh far_last 2 None) [0] (store mem (fresh far_last 2 None)) =
     Inr [[Fin 0, Fin 0, Fin 0], [Fin 0, Fin 0, Fin 0], [Fin 0, Fin 0, Fin 0], [Fin 0, Fin 1, Fin 1]]"
proof -
  let ?self = "fresh far_last 2 None"
  have d: "data ?self = far_last" by (simp add: fresh_def)
  have l: "length far_last = 4" by (simp add: far_last_def)
  show ?thesis
    by (subst distances_single_cluster)
       (simp_all add: d l cluster_labels_of_fresh_None store_shape [unfolded n_observations_def]
          upt_4 far_last_rows column_def)
qed

section \<open>One cluster: the later stages\<close>

lemma one_cluster_column0:
  assumes "one_cluster c s"
  shows "column 0 s = replicate (length s) c"
proof -
  from assms have "\<forall>y\<in>set (column 0 s). y = c"
    by (auto simp: one_cluster_def column_def list_all_iff)
  then have "replicate (length (column 0 s)) c = column 0 s" by (rule replicate_length_same)
  then show ?thesis by simp
qed

lemma np_insert_same: "\<not> fl_isnan c \<Longrightarrow> np_insert c (replicate n c) = replicate (Suc n) c"
  by (cases n; cases c) simp_all

lemma np_sort_replicate:
  assumes "\<not> fl_isnan c"
  shows "np_sort (replicate n c) = replicate n c"
proof (induction n)
  case 0
  show ?case by (simp add: np_sort_def)
next
  case (Suc n)
  have "np_sort (replicate (Suc n) c) = np_insert c (np_sort (replicate n c))"
    by (simp add: np_sort_def)
  also from Suc have "\<dots> = np_insert c (replicate n c)" by simp
  also from assms have "\<dots> = replicate (Suc n) c" by (rule np_insert_same)
  finally show ?case .
qed

lemma np_unique_one_cluster:
  assumes "one_cluster c s"
  shows "np_unique (column 0 s) = [c]"
proof -
  from assms have "\<not> fl_isnan c" "length s \<noteq> 0" by (simp_all add: one_cluster_def)
  then show ?thesis
    by (simp add: np_unique_def one_cluster_column0 [OF assms] np_sort_replicate
        remdups_adj_replicate)
qed

lemma cluster_column_one_cluster: "one_cluster c s \<Longrightarrow> cluster_column k s c = column k s"
proof -
  assume a: "one_cluster c s"
  then have "filter (\<lambda>row. fl_eq (row ! 0) c) s = s"
    by (intro filter_True) (auto simp: one_cluster_def list_all_iff fl_eq_def)
  then show ?thesis by (simp add: cluster_column_def)
qed

lemma dict_column_replicate:
  "dict_get d c = Inr v \<Longrightarrow> dict_column d (replicate n c) = Inr (replicate n v)"
  by (induction n) simp_all

lemma broadcast_one_cluster:
  assumes "one_cluster c s" and "d c = Some v"
  shows "broadcast d s = Inr (hstack s (replicate (length s) v))"
proof -
  from assms have "dict_get d c = Inr v" by (simp add: dict_get_def one_cluster_def)
  then show ?thesis
    by (simp add: broadcast_def one_cluster_column0 [OF assms(1)] dict_column_replicate)
qed

lemma one_cluster_hstack:
  "one_cluster c s \<Longrightarrow> length col = length s \<Longrightarrow> one_cluster c (hstack s col)"
  by (auto simp: one_cluster_def hstack_def list_all_iff nth_append dest!: set_zip_leftD)

lemma ssd_one_cluster:
  assumes "one_cluster c s"
  shows "ssd self s =
     (let v = fl_sum (map (\<lambda>x. fl_mul x x) (nonan (column 1 s)))
      in if fl_eq v (Fin 0) then Inl SystemExit
         else Inr (self\<lparr>cluster_labels_u := Some [c]\<rparr>, hstack s (replicate (length s) v)))"
  using assms
  by (simp add: ssd_def np_unique_one_cluster cluster_ssd_def cluster_column_one_cluster Let_def
      broadcast_one_cluster)

lemma prob_set_distances_ev_one_cluster:
  assumes "one_cluster c s" and "cluster_labels_u self = Some [c]"
  shows "prob_set_distances_ev self s =
         Inr (hstack s (replicate (length s) (fl_mean (nonan (column 5 s)))))"
  using assms
  by (simp add: prob_set_distances_ev_def cluster_ev_prob_set_distance_def
      cluster_column_one_cluster broadcast_one_cluster)

lemma prob_local_outlier_factors_ev_one_cluster:
  assumes "one_cluster c s" and "cluster_labels_u self = Some [c]"
  shows "prob_local_outlier_factors_ev self s =
         Inr (hstack s (replicate (length s)
                (fl_div (fl_sum (map (\<lambda>x. fl_mul x x) (nonan (column 7 s))))
                        (Fin (real (length (nonan (column 7 s))))))))"
  using assms
  by (simp add: prob_local_outlier_factors_ev_def cluster_ev_plof_sq_def Let_def
      cluster_column_one_cluster broadcast_one_cluster)

section \<open>A run on four points\<close>

lemma far_last_ssd:
  "ssd (fresh far_last 2 None)
     [[Fin 0, Fin 0, Fin 0], [Fin 0, Fin 0, Fin 0], [Fin 0, Fin 0, Fin 0], [Fin 0, Fin 1, Fin 1]] =
   Inr ((fresh far_last 2 None)\<lparr>cluster_labels_u := Some [Fin 0]\<rparr>,
     [[Fin 0, Fin 0, Fin 0, Fin 1], [Fin 0, Fin 0, Fin 0, Fin 1], [Fin 0, Fin 0, Fin 0, Fin 1],
      [Fin 0, Fin 1, Fin 1, Fin 1]])"
  by (subst ssd_one_cluster [where c = "Fin 0"])
     (simp_all add: one_cluster_def column_def nonan_def fl_sum_def fl_eq_def hstack_def Let_def)

lemma far_last_stage4:
  "prob_set_distances ((fresh far_last 2 None)\<lparr>cluster_labels_u := Some [Fin 0]\<rparr>)
     (standard_distances
       [[Fin 0, Fin 0, Fin 0, Fin 1], [Fin 0, Fin 0, Fin 0, Fin 1], [Fin 0, Fin 0, Fin 0, Fin 1],
        [Fin 0, Fin 1, Fin 1, Fin 1]]) =
   [[Fin 0, Fin 0, Fin 0, Fin 1, PInf, Fin 0], [Fin 0, Fin 0, Fin 0, Fin 1, PInf, Fin 0],
    [Fin 0, Fin 0, Fin 0, Fin 1, PInf, Fin 0], [Fin 0, Fin 1, Fin 1, Fin 1, Fin 1, Fin (1000 / 997)]]"
  by (simp add: prob_set_distances_map standard_distances_map standard_distance_def
      prob_set_distance_def fresh_def signed_inf_def)

lemma far_last_stage6:
  "prob_set_distances_ev ((fresh far_last 2 None)\<lparr>cluster_labels_u := Some [Fin 0]\<rparr>)
   [[Fin 0, Fin 0, Fin 0, Fin 1, PInf, Fin 0], [Fin 0, Fin 0, Fin 0, Fin 1, PInf, Fin 0],
    [Fin 0, Fin 0, Fin 0, Fin 1, PInf, Fin 0], [Fin 0, Fin 1, Fin 1, Fin 1, Fin 1, Fin (1000 / 997)]] =
   Inr [[Fin 0, Fin 0, Fin 0, Fin 1, PInf, Fin 0, Fin (250 / 997)],
        [Fin 0, Fin 0, Fin 0, Fin 1, PInf, Fin 0, Fin (250 / 997)],
        [Fin 0, Fin 0, Fin 0, Fin 1, PInf, Fin 0, Fin (250 / 997)],
        [Fin 0, Fin 1, Fin 1, Fin 1, Fin 1, Fin (1000 / 997), Fin (250 / 997)]]"
  by (subst prob_set_distances_ev_one_cluster [where c = "Fin 0"])
     (simp_all add: one_cluster_def column_def nonan_def fl_sum_def fl_mean_def hstack_def)


lemma far_last_stage7:
  "prob_local_outlier_factors_ev ((fresh far_last 2 None)\<lparr>cluster_labels_u := Some [Fin 0]\<rparr>)
    (prob_local_outlier_factors
       [[Fin 0, Fin 0, Fin 0, Fin 1, PInf, Fin 0, Fin (250 / 997)],
        [Fin 0, Fin 0, Fin 0, Fin 1, PInf, Fin 0, Fin (250 / 997)],
        [Fin 0, Fin 0, Fin 0, Fin 1, PInf, Fin 0, Fin (250 / 997)],
        [Fin 0, Fin 1, Fin 1, Fin 1, Fin 1, Fin (1000 / 997), Fin (250 / 997)]]) =
   Inr [[Fin 0, Fin 0, Fin 0, Fin 1, PInf, Fin 0, Fin (250 / 997), Fin (- 1), Fin 3],
        [Fin 0, Fin 0, Fin 0, Fin 1, PInf, Fin 0, Fin (250 / 997), Fin (- 1), Fin 3],
        [Fin 0, Fin 0, Fin 0, Fin 1, PInf, Fin 0, Fin (250 / 997), Fin (- 1), Fin 3],
        [Fin 0, Fin 1, Fin 1, Fin 1, Fin 1, Fin (1000 / 997), Fin (250 / 997), Fin 3, Fin 3]]"
proof -
  have a: "prob_local_outlier_factors
       [[Fin 0, Fin 0, Fin 0, Fin 1, PInf, Fin 0, Fin (250 / 997)],
        [Fin 0, Fin 0, Fin 0, Fin 1, PInf, Fin 0, Fin (250 / 997)],
        [Fin 0, Fin 0, Fin 0, Fin 1, PInf, Fin 0, Fin (250 / 997)],
        [Fin 0, Fin 1, Fin 1, Fin 1, Fin 1, Fin (1000 / 997), Fin (250 / 997)]] =
       [[Fin 0, Fin 0, Fin 0, Fin 1, PInf, Fin 0, Fin (250 / 997), Fin (- 1)],
        [Fin 0, Fin 0, Fin 0, Fin 1, PInf, Fin 0, Fin (250 / 997), Fin (- 1)],
        [Fin 0, Fin 0, Fin 0, Fin 1, PInf, Fin 0, Fin (250 / 997), Fin (- 1)],
        [Fin 0, Fin 1, Fin 1, Fin 1, Fin 1, Fin (1000 / 997), Fin (250 / 997), Fin 3]]"
    by (simp add: prob_local_outlier_factors_def hstack_def prob_outlier_factor_def fl_sub_def)
  show ?thesis
    unfolding a
    by (subst prob_local_outlier_factors_ev_one_cluster [where c = "Fin 0"])
       (simp_all add: one_cluster_def column_def nonan_def fl_sum_def hstack_def)
qed

lemma far_last_stage9:
  "local_outlier_probabilities_stage erf
     (norm_prob_local_outlier_factors ((fresh far_last 2 None)\<lparr>cluster_labels_u := Some [Fin 0]\<rparr>)
       [[Fin 0, Fin 0, Fin 0, Fin 1, PInf, Fin 0, Fin (250 / 997), Fin (- 1), Fin 3],
        [Fin 0, Fin 0, Fin 0, Fin 1, PInf, Fin 0, Fin (250 / 997), Fin (- 1), Fin 3],
        [Fin 0, Fin 0, Fin 0, Fin 1, PInf, Fin 0, Fin (250 / 997), Fin (- 1), Fin 3],
        [Fin 0, Fin 1, Fin 1, Fin 1, Fin 1, Fin (1000 / 997), Fin (250 / 997), Fin 3, Fin 3]]) =
   Inr [[Fin 0, Fin 0, Fin 0, Fin 1, PInf, Fin 0, Fin (250 / 997), Fin (- 1), Fin 3,
           Fin (997 / 1000 * sqrt 3),
           local_outlier_probability erf (Fin (- 1)) (Fin (997 / 1000 * sqrt 3))],
        [Fin 0, Fin 0, Fin 0, Fin 1, PInf, Fin 0, Fin (250 / 997), Fin (- 1), Fin 3,
           Fin (997 / 1000 * sqrt 3),
           local_outlier_probability erf (Fin (- 1)) (Fin (997 / 1000 * sqrt 3))],
        [Fin 0, Fin 0, Fin 0, Fin 1, PInf, Fin 0, Fin (250 / 997), Fin (- 1), Fin 3,
           Fin (997 / 1000 * sqrt 3),
           local_outlier_probability erf (Fin (- 1)) (Fin (997 / 1000 * sqrt 3))],
        [Fin 0, Fin 1, Fin 1, Fin 1, Fin 1, Fin (1000 / 997), Fin (250 / 997), Fin 3, Fin 3,
           Fin (997 / 1000 * sqrt 3),
           local_outlier_probability erf (Fin 3) (Fin (997 / 1000 * sqrt 3))]]"
  by (simp add: local_outlier_probabilities_stage_def norm_prob_local_outlier_factors_def
      hstack_def norm_prob_outlier_factor_def fresh_def)


lemma far_last_fit_store:
  "fit_store mem [0] erf (fresh far_last 2 None) =
     Inr ((fresh far_last 2 None)\<lparr>cluster_labels_u := Some [Fin 0]\<rparr>, far_last_table erf)"
  by (simp add: fit_store_def later_stages_def far_last_distances far_last_ssd far_last_stage4 far_last_stage6
      far_last_stage7 far_last_stage9 far_last_table_def far_last_row_def
      del: distances.simps)

lemma far_last_column10: "column 10 (far_last_table erf) = far_last_scores erf"
  by (simp add: column_def far_last_table_def far_last_row_def far_last_scores_def)

lemma far_last_fit:
  "fit mem [0] erf (fresh far_last 2 None) =
     Inr ((fresh far_last 2 None)\<lparr>cluster_labels_u := Some [Fin 0],
            local_outlier_probabilities := Some (far_last_scores erf)\<rparr>, far_last_scores erf)"
  by (simp add: fit_def far_last_fit_store far_last_column10)

lemma far_first_rows:
  "neighbor_row (fresh far_first 2 None) 0 far_first 0 = Inr [Fin 0, Fin 0, Fin 0]"
  "neighbor_row (fresh far_first 2 None) 0 far_first (Suc 0) = Inr [Fin 0, Fin 0, Fin 0]"
  "neighbor_row (fresh far_first 2 None) 0 far_first 2 = Inr [Fin 0, Fin 0, Fin 0]"
  "neighbor_row (fresh far_first 2 None) 0 far_first 3 = Inr [Fin 0, Fin 0, Fin 0]"
  by (simp_all add: far_first_def eval_neighbor_row)

lemma far_first_distances:
  "distances (fresh far_first 2 None) [0] (store mem (fresh far_first 2 None)) = Inl SystemExit"
proof -
  let ?self = "fresh far_first 2 None"
  have d: "data ?self = far_first" by (simp add: fresh_def)
  have l: "length far_first = 4" by (simp add: far_first_def)
  show ?thesis
    by (subst distances_single_cluster)
       (simp_all add: d l cluster_labels_of_fresh_None store_shape [unfolded n_observations_def]
          upt_4 far_first_rows column_def)
qed

lemma far_first_fit: "fit mem [0] erf (fresh far_first 2 None) = Inl SystemExit"
  by (simp add: fit_def fit_store_def later_stages_def far_first_distances del: distances.simps)

lemma plane_rows:
  "neighbor_row (fresh plane_data 2 None) 0 plane_data 0 = Inr [Fin 0, Fin 0, Fin 0]"
  "neighbor_row (fresh plane_data 2 None) 0 plane_data (Suc 0) = Inr [Fin 0, Fin (3 / 2), Fin (3 / 2)]"
  "neighbor_row (fresh plane_data 2 None) 0 plane_data 2 = Inr [Fin 0, Fin (21 / 4), Fin 7]"
  by (simp_all add: plane_data_def eval_neighbor_row)

lemma plane_distances:
  "distances (fresh plane_data 2 None) [0] (store mem (fresh plane_data 2 None)) =
     Inr [[Fin 0, Fin 0, Fin 0], [Fin 0, Fin (3 / 2), Fin (3 / 2)], [Fin 0, Fin (21 / 4), Fin 7]]"
proof -
  let ?self = "fresh plane_data 2 None"
  have d: "data ?self = plane_data" by (simp add: fresh_def)
  have l: "length plane_data = 3" by (simp add: plane_data_def)
  show ?thesis
    by (subst distances_single_cluster)
       (simp_all add: d l cluster_labels_of_fresh_None store_shape [unfolded n_observations_def]
          upt_3 plane_rows column_def)
qed

lemma sqrt_25: "sqrt 25 = 5" by (rule real_sqrt_unique) simp_all
lemma sqrt_100: "sqrt 100 = 10" by (rule real_sqrt_unique) simp_all

lemma plane_spec:
  "map (spec_context_distance plane_data 2) [0..<3] = [Fin (15 / 2), Fin 5, Fin (15 / 2)]"
  by (simp add: spec_context_distance_def spec_neighbor_distances_def euclidean_distance_def
      plane_data_def upt_3 fl_sub_def fl_sum_def fl_mean_def np_sort_def sqrt_25 sqrt_100)

lemma line_rows:
  "neighbor_row (fresh line_data 2 None) 0 line_data 0 = Inr [Fin 0, Fin 0, Fin 0]"
  "neighbor_row (fresh line_data 2 None) 0 line_data (Suc 0) = Inr [Fin 0, Fin (3 / 2), Fin 2]"
  "neighbor_row (fresh line_data 2 None) 0 line_data 2 = Inr [Fin 0, Fin (5 / 2), Fin 3]"
  by (simp_all add: line_data_def eval_neighbor_row)

lemma line_neighborhoods:
  "neighborhood (fresh line_data 2 None) line_data 1 = [Fin 1, Fin 2]"
  "neighborhood (fresh line_data 2 None) line_data 2 = [Fin 2, Fin 3]"
  by (simp_all add: line_data_def eval_neighbor_row)

lemma line_distances:
  "distances (fresh line_data 2 None) [0] (store mem (fresh line_data 2 None)) =
     Inr [[Fin 0, Fin 0, Fin 0], [Fin 0, Fin (3 / 2), Fin 2], [Fin 0, Fin (5 / 2), Fin 3]]"
proof -
  let ?self = "fresh line_data 2 None"
  have d: "data ?self = line_data" by (simp add: fresh_def)
  have l: "length line_data = 3" by (simp add: line_data_def)
  show ?thesis
    by (subst distances_single_cluster)
       (simp_all add: d l cluster_labels_of_fresh_None store_shape [unfolded n_observations_def]
          upt_3 line_rows column_def)
qed

lemma line_one_neighbor:
  "neighbor_row (fresh line_data 1 None) 0 line_data 0 = Inl ValueError"
  by (simp add: line_data_def eval_neighbor_row)

lemma line_one_neighbor_fit: "fit mem [0] erf (fresh line_data 1 None) = Inl ValueError"
  by (simp add: fit_def fit_store_def later_stages_def fresh_def cluster_labels_of_def line_data_def
       upt_3 line_one_neighbor [unfolded fresh_def line_data_def])

lemma erf_like_sign: "y \<le> 0 \<Longrightarrow> erf_like y \<le> 0"
  by (simp add: erf_like_def divide_nonpos_pos)


section \<open>Degenerate clusters\<close>

lemma set_np_insert: "set (np_insert x ys) = insert x (set ys)"
  by (induction ys) auto

lemma set_np_sort: "set (np_sort xs) = set xs"
  unfolding np_sort_def by (induction xs) (simp_all add: set_np_insert)

lemma set_np_unique: "set (np_unique xs) = set xs"
  by (simp add: np_unique_def set_np_sort)

lemma ssd_loop_exit:
  "cid \<in> set u \<Longrightarrow> fl_eq (cluster_ssd s cid) (Fin 0) \<Longrightarrow> ssd_loop s u d = Inl SystemExit"
  by (induction u arbitrary: d) (auto simp: Let_def)

lemma ssd_exit:
  assumes "cid \<in> set (column 0 s)" and "fl_eq (cluster_ssd s cid) (Fin 0)"
  shows "ssd self s = Inl SystemExit"
proof -
  from assms(1) have "cid \<in> set (np_unique (column 0 s))" by (simp add: set_np_unique)
  with assms(2) show ?thesis by (simp add: ssd_def Let_def ssd_loop_exit)
qed

lemma foldl_add_zeros: "list_all (\<lambda>x. x = Fin 0) xs \<Longrightarrow> foldl fl_add (Fin 0) xs = Fin 0"
  by (induction xs) auto

lemma cluster_ssd_zero:
  assumes "list_all (\<lambda>x. x = Fin 0) (cluster_column 1 s cid)"
  shows "cluster_ssd s cid = Fin 0"
proof -
  from assms have "list_all (\<lambda>x. x = Fin 0) (map (\<lambda>x. fl_mul x x) (nonan (cluster_column 1 s cid)))"
    by (auto simp: list_all_iff nonan_def)
  then show ?thesis by (simp add: cluster_ssd_def fl_sum_def foldl_add_zeros)
qed


lemma upt_6: "[0..<6] = [0, Suc 0, 2, 3, 4, 5]" by (simp add: upt_rec)

lemma upt_Suc3: "[0..<Suc (Suc (Suc 0))] = [0, Suc 0, 2]" by (simp add: upt_rec)

lemma two_clusters_where:
  "where_eq (cluster_labels_of two_clusters) 0 = [0, Suc 0, 2]"
  "where_eq (cluster_labels_of two_clusters) 1 = [3, 4, 5]"
  by (simp_all add: cluster_labels_of_def two_clusters_def fresh_def upt_6)

lemma two_clusters_rows:
  "neighbor_row two_clusters 0 [[Fin 0], [Fin 1], [Fin 3]] 0 = Inr [Fin 0, Fin 0, Fin 0]"
  "neighbor_row two_clusters 0 [[Fin 0], [Fin 1], [Fin 3]] (Suc 0) = Inr [Fin 0, Fin (3 / 2), Fin 2]"
  "neighbor_row two_clusters 0 [[Fin 0], [Fin 1], [Fin 3]] 2 = Inr [Fin 0, Fin (5 / 2), Fin 3]"
  "neighbor_row two_clusters 1 [[Fin 5], [Fin 5], [Fin 5]] 0 = Inr [Fin 1, Fin 0, Fin 0]"
  "neighbor_row two_clusters 1 [[Fin 5], [Fin 5], [Fin 5]] (Suc 0) = Inr [Fin 1, Fin 0, Fin 0]"
  "neighbor_row two_clusters 1 [[Fin 5], [Fin 5], [Fin 5]] 2 = Inr [Fin 1, Fin 0, Fin 0]"
  by (simp_all add: two_clusters_def eval_neighbor_row)

lemma two_clusters_distances:
  "distances two_clusters [0, 1] (store mem two_clusters) = Inr two_clusters_table"
proof -
  have d: "data two_clusters = [[Fin 0], [Fin 1], [Fin 3], [Fin 5], [Fin 5], [Fin 5]]"
    by (simp add: two_clusters_def fresh_def)
  have s: "store mem two_clusters = map (\<lambda>i. [mem i 0, mem i (Suc 0), mem i 2]) [0, Suc 0, 2, 3, 4, 5]"
  proof -
    have "n_observations two_clusters = 6" by (simp add: n_observations_def d)
    then show ?thesis by (simp add: store_def upt_6 upt_3)
  qed
  have r0: "distances_rows two_clusters 0 [0, Suc 0, 2] [[Fin 0], [Fin 1], [Fin 3]] [0, Suc 0, 2]
              (store mem two_clusters) =
            Inr [[Fin 0, Fin 0, Fin 0], [Fin 0, Fin (3 / 2), Fin 2], [Fin 0, Fin (5 / 2), Fin 3],
                 [mem 3 0, mem 3 (Suc 0), mem 3 2], [mem 4 0, mem 4 (Suc 0), mem 4 2],
                 [mem 5 0, mem 5 (Suc 0), mem 5 2]]"
    by (subst distances_rows_fold) (simp_all add: two_clusters_rows s)
  have r1: "distances_rows two_clusters 1 [3, 4, 5] [[Fin 5], [Fin 5], [Fin 5]] [0, Suc 0, 2]
            [[Fin 0, Fin 0, Fin 0], [Fin 0, Fin (3 / 2), Fin 2], [Fin 0, Fin (5 / 2), Fin 3],
                 [mem 3 0, mem 3 (Suc 0), mem 3 2], [mem 4 0, mem 4 (Suc 0), mem 4 2],
                 [mem 5 0, mem 5 (Suc 0), mem 5 2]] = Inr two_clusters_table"
    by (subst distances_rows_fold) (simp_all add: two_clusters_rows two_clusters_table_def)
  show ?thesis
    by (simp add: two_clusters_where d upt_Suc3 r0 r1 column_def Let_def
          del: upt_Suc distances_rows.simps)
       (simp add: two_clusters_table_def)
qed

section \<open>The rows stage 1 writes\<close>








section \<open>One cluster under another id\<close>

lemma nth_relabel_row: "row \<noteq> [] \<Longrightarrow> tl row ! k = row ! Suc k"
  by (cases row) simp_all

lemma one_cluster_relabel: "one_cluster a s \<Longrightarrow> \<not> fl_isnan b \<Longrightarrow> one_cluster b (relabel b s)"
  by (simp add: one_cluster_def relabel_def list_all_iff)

lemma length_relabel [simp]: "length (relabel b s) = length s"
  by (simp add: relabel_def)

lemma column_relabel: "one_cluster a s \<Longrightarrow> 0 < k \<Longrightarrow> column k (relabel b s) = column k s"
  by (simp add: column_def relabel_def one_cluster_def list_all_iff nth_relabel_row)

lemma hstack_relabel:
  "one_cluster a s \<Longrightarrow> hstack (relabel b s) col = relabel b (hstack s col)"
proof -
  assume a: "one_cluster a s"
  have "(b # tl row) @ [v] = b # tl (row @ [v])" if "(row, v) \<in> set (zip s col)" for row v
  proof -
    from that have "row \<in> set s" by (rule set_zip_leftD)
    with a have "row \<noteq> []" by (simp add: one_cluster_def list_all_iff)
    then show ?thesis by simp
  qed
  then show ?thesis
    by (auto simp: hstack_def relabel_def zip_map1)
qed

lemma map_relabel:
  assumes "one_cluster a s" and "\<And>row. row \<noteq> [] \<Longrightarrow> f (b # tl row) = f row"
  shows "hstack (relabel b s) (map f (relabel b s)) = relabel b (hstack s (map f s))"
proof -
  from assms have "map f (relabel b s) = map f s"
    by (simp add: relabel_def one_cluster_def list_all_iff)
  with assms(1) show ?thesis by (simp add: hstack_relabel)
qed

lemma standard_distances_relabel:
  "one_cluster a s \<Longrightarrow> standard_distances (relabel b s) = relabel b (standard_distances s)"
  unfolding standard_distances_def by (rule map_relabel) (simp_all add: nth_relabel_row)

lemma prob_set_distances_relabel:
  "one_cluster a s \<Longrightarrow> extent self' = extent self \<Longrightarrow>
   prob_set_distances self' (relabel b s) = relabel b (prob_set_distances self s)"
  unfolding prob_set_distances_def by (simp, rule map_relabel) (simp_all add: nth_relabel_row)

lemma prob_local_outlier_factors_relabel:
  "one_cluster a s \<Longrightarrow> prob_local_outlier_factors (relabel b s) = relabel b (prob_local_outlier_factors s)"
  unfolding prob_local_outlier_factors_def by (rule map_relabel) (simp_all add: nth_relabel_row)

lemma norm_prob_local_outlier_factors_relabel:
  "one_cluster a s \<Longrightarrow> extent self' = extent self \<Longrightarrow>
   norm_prob_local_outlier_factors self' (relabel b s) =
   relabel b (norm_prob_local_outlier_factors self s)"
  unfolding norm_prob_local_outlier_factors_def
  by (simp, rule map_relabel) (simp_all add: nth_relabel_row)

lemma local_outlier_probabilities_stage_relabel:
  assumes "one_cluster a s"
  shows "local_outlier_probabilities_stage erf (relabel b s) =
         map_sum id (relabel b) (local_outlier_probabilities_stage erf s)"
proof -
  from assms have "s \<noteq> []" "relabel b s \<noteq> []" by (simp_all add: one_cluster_def relabel_def)
  moreover have "hstack (relabel b s) (map (\<lambda>row. local_outlier_probability erf (row ! 7) (row ! 9)) (relabel b s))
     = relabel b (hstack s (map (\<lambda>row. local_outlier_probability erf (row ! 7) (row ! 9)) s))"
    using assms by (rule map_relabel) (simp add: nth_relabel_row)
  ultimately show ?thesis by (simp add: local_outlier_probabilities_stage_def)
qed

text \<open>The stages keep a table of one cluster a table of one cluster.\<close>

lemma one_cluster_map_stage: "one_cluster a s \<Longrightarrow> one_cluster a (hstack s (map f s))"
  by (simp add: one_cluster_hstack)

lemma one_cluster_stages:
  assumes "one_cluster a s"
  shows "one_cluster a (standard_distances s)" "one_cluster a (prob_set_distances self s)"
    "one_cluster a (prob_local_outlier_factors s)"
    "one_cluster a (norm_prob_local_outlier_factors self s)"
  using assms
  by (simp_all add: standard_distances_def prob_set_distances_def prob_local_outlier_factors_def
      norm_prob_local_outlier_factors_def one_cluster_map_stage)

lemma later_stages_relabel:
  assumes oc: "one_cluster a s" and b: "\<not> fl_isnan b" and e: "extent self' = extent self"
  shows "map_sum id (\<lambda>(self1, t). column 10 t) (later_stages erf self' (relabel b s)) =
         map_sum id (\<lambda>(self1, t). column 10 t) (later_stages erf self s)"
proof -
  define v where "v = fl_sum (map (\<lambda>x. fl_mul x x) (nonan (column 1 s)))"
  note ocb = one_cluster_relabel [OF _ b]
  have ssd_a: "ssd self s = (if fl_eq v (Fin 0) then Inl SystemExit
       else Inr (self\<lparr>cluster_labels_u := Some [a]\<rparr>, hstack s (replicate (length s) v)))"
    by (simp add: ssd_one_cluster [OF oc] v_def Let_def)
  have ssd_b: "ssd self' (relabel b s) = (if fl_eq v (Fin 0) then Inl SystemExit
       else Inr (self'\<lparr>cluster_labels_u := Some [b]\<rparr>, relabel b (hstack s (replicate (length s) v))))"
    by (simp add: ssd_one_cluster [OF ocb [OF oc]] column_relabel [OF oc] hstack_relabel [OF oc]
        v_def Let_def)
  show ?thesis
  proof (cases "fl_eq v (Fin 0)")
    case True
    with ssd_a ssd_b show ?thesis by (simp add: later_stages_def)
  next
    case False
    define self1 where "self1 = self\<lparr>cluster_labels_u := Some [a]\<rparr>"
    define self1' where "self1' = self'\<lparr>cluster_labels_u := Some [b]\<rparr>"
    have u: "cluster_labels_u self1 = Some [a]" "cluster_labels_u self1' = Some [b]"
      and e1: "extent self1' = extent self1"
      by (simp_all add: self1_def self1'_def e)
    define s2 where "s2 = hstack s (replicate (length s) v)"
    define s4 where "s4 = prob_set_distances self1 (standard_distances s2)"
    define s5 where "s5 = hstack s4 (replicate (length s4) (fl_mean (nonan (column 5 s4))))"
    define s6 where "s6 = prob_local_outlier_factors s5"
    define s7 where "s7 = hstack s6 (replicate (length s6)
                (fl_div (fl_sum (map (\<lambda>x. fl_mul x x) (nonan (column 7 s6))))
                        (Fin (real (length (nonan (column 7 s6)))))))"
    define s8 where "s8 = norm_prob_local_outlier_factors self1 s7"
    define s9 where "s9 = hstack s8 (map (\<lambda>row. local_outlier_probability erf (row ! 7) (row ! 9)) s8)"
    have oc2: "one_cluster a s2" unfolding s2_def using oc by (simp add: one_cluster_hstack)
    then have oc4: "one_cluster a s4" unfolding s4_def by (simp add: one_cluster_stages)
    then have oc5: "one_cluster a s5" unfolding s5_def by (simp add: one_cluster_hstack)
    then have oc6: "one_cluster a s6" unfolding s6_def by (simp add: one_cluster_stages)
    then have oc7: "one_cluster a s7" unfolding s7_def by (simp add: one_cluster_hstack)
    then have oc8: "one_cluster a s8" unfolding s8_def by (simp add: one_cluster_stages)
    then have oc9: "one_cluster a s9" unfolding s9_def by (simp add: one_cluster_hstack)
    from oc8 have ne: "s8 \<noteq> []" by (simp add: one_cluster_def)
    have a2: "ssd self s = Inr (self1, s2)" using ssd_a False by (simp add: self1_def s2_def)
    have a5: "prob_set_distances_ev self1 s4 = Inr s5"
      by (simp add: prob_set_distances_ev_one_cluster [OF oc4 u(1)] s5_def)
    have a7: "prob_local_outlier_factors_ev self1 s6 = Inr s7"
      by (simp add: prob_local_outlier_factors_ev_one_cluster [OF oc6 u(1)] s7_def)
    have a9: "local_outlier_probabilities_stage erf s8 = Inr s9"
      using ne by (simp add: local_outlier_probabilities_stage_def s9_def)
    have left: "later_stages erf self s = Inr (self1, s9)"
      by (simp add: later_stages_def a2 a5 a7 a9 s4_def [symmetric] s6_def [symmetric] s8_def [symmetric])
    have b2: "ssd self' (relabel b s) = Inr (self1', relabel b s2)"
      using ssd_b False by (simp add: self1'_def s2_def)
    have b4: "prob_set_distances self1' (standard_distances (relabel b s2)) = relabel b s4"
      by (simp add: standard_distances_relabel [OF oc2]
          prob_set_distances_relabel [OF one_cluster_stages(1) [OF oc2] e1] s4_def)
    have b5: "prob_set_distances_ev self1' (relabel b s4) = Inr (relabel b s5)"
      by (simp add: prob_set_distances_ev_one_cluster [OF ocb [OF oc4] u(2)] column_relabel [OF oc4]
          hstack_relabel [OF oc4] s5_def)
    have b6: "prob_local_outlier_factors (relabel b s5) = relabel b s6"
      by (simp add: prob_local_outlier_factors_relabel [OF oc5] s6_def)
    have b7: "prob_local_outlier_factors_ev self1' (relabel b s6) = Inr (relabel b s7)"
      by (simp add: prob_local_outlier_factors_ev_one_cluster [OF ocb [OF oc6] u(2)]
          column_relabel [OF oc6] hstack_relabel [OF oc6] s7_def)
    have b8: "norm_prob_local_outlier_factors self1' (relabel b s7) = relabel b s8"
      by (simp add: norm_prob_local_outlier_factors_relabel [OF oc7 e1] s8_def)
    have b9: "local_outlier_probabilities_stage erf (relabel b s8) = Inr (relabel b s9)"
      by (simp add: local_outlier_probabilities_stage_relabel [OF oc8] a9)
    have right: "later_stages erf self' (relabel b s) = Inr (self1', relabel b s9)"
      by (simp add: later_stages_def b2 b4 b5 b6 b7 b8 b9)
    from left right show ?thesis by (simp add: column_relabel [OF oc9])
  qed
qed

section \<open>Stage 1 on one cluster\<close>

lemma neighbor_row_relabel:
  "n_neighbors self' = n_neighbors self \<Longrightarrow>
   neighbor_row self' c' pv vec =
     map_sum id (\<lambda>row. Fin (of_int c') # tl row) (neighbor_row self c pv vec)"
  by (simp add: neighbor_row_def neighborhood_def Let_def split: list.splits)

lemma neighbor_row_Inr: "neighbor_row self c pv vec = Inr row \<Longrightarrow> row \<noteq> [] \<and> row ! 0 = Fin (of_int c)"
  by (auto simp: neighbor_row_def Let_def split: list.splits)

lemma neighbor_row_isl: "isl (neighbor_row self c pv vec) \<Longrightarrow> neighbor_row self c pv vec = Inl ValueError"
  by (auto simp: neighbor_row_def Let_def split: list.splits)

lemma distances_rows_ValueError:
  "\<forall>vec\<in>set vecs. indices ! vec < length s \<Longrightarrow>
   \<exists>vec\<in>set vecs. isl (neighbor_row self c pv vec) \<Longrightarrow>
   distances_rows self c indices pv vecs s = Inl ValueError"
proof (induction vecs arbitrary: s)
  case Nil
  then show ?case by simp
next
  case (Cons vec vecs)
  show ?case
  proof (cases "neighbor_row self c pv vec")
    case (Inl e)
    then have "isl (neighbor_row self c pv vec)" by simp
    from neighbor_row_isl [OF this] show ?thesis by simp
  next
    case (Inr row)
    with Cons.prems have "\<exists>vec\<in>set vecs. isl (neighbor_row self c pv vec)" by auto
    moreover from Cons.prems(1) have "\<forall>v\<in>set vecs. indices ! v < length (s[indices ! vec := row])"
      by simp
    ultimately have "distances_rows self c indices pv vecs (s[indices ! vec := row]) = Inl ValueError"
      by (intro Cons.IH)
    with Inr Cons.prems(1) show ?thesis by simp
  qed
qed

lemma distances_one_cluster:
  assumes "cluster_labels_of self = Ndarray (replicate (length (data self)) c)"
    and "length s = length (data self)"
  shows "distances self [c] s =
     (if list_all (\<lambda>vec. \<not> isl (neighbor_row self c (data self) vec)) [0..<length (data self)]
      then (let s1 = map (\<lambda>vec. projr (neighbor_row self c (data self) vec)) [0..<length (data self)]
            in if list_ex fl_truthy (column 1 s1) then Inr s1 else Inl SystemExit)
      else Inl ValueError)"
proof (cases "list_all (\<lambda>vec. \<not> isl (neighbor_row self c (data self) vec)) [0..<length (data self)]")
  case True
  with distances_single_cluster [OF assms] show ?thesis by simp
next
  case False
  have pv: "map (\<lambda>i. data self ! i) [0..<length (data self)] = data self" by (rule map_nth)
  from False have "\<exists>vec\<in>set [0..<length (data self)]. isl (neighbor_row self c (data self) vec)"
    by (simp add: list_all_iff)
  moreover from assms(2) have "\<forall>vec\<in>set [0..<length (data self)]. [0..<length (data self)] ! vec < length s"
    by simp
  ultimately have "distances_rows self c [0..<length (data self)] (data self) [0..<length (data self)] s
      = Inl ValueError"
    by (rule distances_rows_ValueError [rotated])
  with False show ?thesis
    by (simp add: assms(1) where_eq_replicate pv Let_def list_ex_iff del: upt_Suc)
qed

lemma set_iteration_replicate:
  assumes "set_iteration ids (replicate n x)"
  shows "ids = (if n = 0 then [] else [x])"
proof (cases "n = 0")
  case True
  with assms show ?thesis by (simp add: set_iteration_def)
next
  case False
  with assms have d: "distinct ids" and s: "set ids = {x}" by (simp_all add: set_iteration_def)
  from s obtain y ys where ids: "ids = y # ys" by (cases ids) auto
  with s d have "y = x" "set ys \<subseteq> {x}" "x \<notin> set ys" by auto
  then have "ys = []" by (cases ys) auto
  with ids \<open>y = x\<close> False show ?thesis by simp
qed

lemma later_stages_empty: "later_stages erf self [] = Inl ValueError"
  by (simp add: later_stages_def ssd_def column_def np_unique_def np_sort_def broadcast_def hstack_def
      standard_distances_def prob_set_distances_def prob_set_distances_ev_def
      prob_local_outlier_factors_def prob_local_outlier_factors_ev_def
      norm_prob_local_outlier_factors_def local_outlier_probabilities_stage_def)

lemma fit_scores_of_fit_store:
  "map_sum id snd (fit mem ids erf self) =
   map_sum id (\<lambda>(self1, t). column 10 t) (fit_store mem ids erf self)"
  by (simp add: fit_def split: sum.splits prod.splits)

section \<open>Every column of a row of the final table\<close>










section \<open>Labels in an array and labels in a list\<close>

lemma distances_Pylist:
  assumes "cluster_labels_of self = Pylist xs"
  shows "distances self ids s =
     (if ids = [] \<or> list_ex fl_truthy (column 1 s) then Inr s else Inl SystemExit)"
  using assms by (induction ids) simp_all

lemma one_cluster_array_equals_default:
  assumes "set_iteration ids0 (elements (cluster_labels_of (self\<lparr>cluster_labels := None\<rparr>)))"
    and "set_iteration ids1 (elements (cluster_labels_of
           (self\<lparr>cluster_labels := Some (Ndarray (replicate (length (data self)) c))\<rparr>)))"
  shows "map_sum id snd (fit mem0 ids0 erf (self\<lparr>cluster_labels := None\<rparr>)) =
         map_sum id snd (fit mem1 ids1 erf
           (self\<lparr>cluster_labels := Some (Ndarray (replicate (length (data self)) c))\<rparr>))"
proof -
  let ?n = "length (data self)"
  let ?A = "self\<lparr>cluster_labels := None\<rparr>"
  let ?B = "self\<lparr>cluster_labels := Some (Ndarray (replicate ?n c))\<rparr>"
  have la: "cluster_labels_of ?A = Ndarray (replicate (length (data ?A)) 0)"
    and lb: "cluster_labels_of ?B = Ndarray (replicate (length (data ?B)) c)"
    by (simp_all add: cluster_labels_of_def)
  from assms(1) have "set_iteration ids0 (replicate ?n 0)" by (simp add: la)
  then have i0: "ids0 = (if ?n = 0 then [] else [0])" by (rule set_iteration_replicate)
  from assms(2) have "set_iteration ids1 (replicate ?n c)" by (simp add: lb)
  then have i1: "ids1 = (if ?n = 0 then [] else [c])" by (rule set_iteration_replicate)
  note ids = i0 i1
  have n: "n_observations ?A = ?n" "n_observations ?B = ?n" by (simp_all add: n_observations_def)
  have len: "length (store mem0 ?A) = length (data ?A)" "length (store mem1 ?B) = length (data ?B)"
    by (simp_all add: store_def n_observations_def)
  show ?thesis
  proof (cases "?n = 0")
    case True
    then have "store mem0 ?A = []" "store mem1 ?B = []" by (simp_all add: store_def n_observations_def)
    with True ids show ?thesis
      by (simp add: fit_scores_of_fit_store fit_store_def later_stages_empty)
  next
    case False
    let ?ra = "\<lambda>vec. neighbor_row ?A 0 (data self) vec"
    let ?rb = "\<lambda>vec. neighbor_row ?B c (data self) vec"
    let ?s1 = "map (\<lambda>vec. projr (?ra vec)) [0..<?n]"
    have rel: "?rb vec = map_sum id (\<lambda>row. Fin (of_int c) # tl row) (?ra vec)" for vec
      by (rule neighbor_row_relabel) simp
    then have isl: "isl (?rb vec) = isl (?ra vec)" for vec
      by (cases "?ra vec") simp_all
    have da: "distances ?A [0] (store mem0 ?A) =
       (if list_all (\<lambda>vec. \<not> isl (?ra vec)) [0..<?n]
        then (if list_ex fl_truthy (column 1 ?s1) then Inr ?s1 else Inl SystemExit)
        else Inl ValueError)"
      using distances_one_cluster [OF la len(1)] by (simp add: Let_def)
    have db: "distances ?B [c] (store mem1 ?B) =
       (if list_all (\<lambda>vec. \<not> isl (?ra vec)) [0..<?n]
        then (if list_ex fl_truthy (column 1 (map (\<lambda>vec. projr (?rb vec)) [0..<?n]))
              then Inr (map (\<lambda>vec. projr (?rb vec)) [0..<?n]) else Inl SystemExit)
        else Inl ValueError)"
      using distances_one_cluster [OF lb len(2)] by (simp add: Let_def isl)
    show ?thesis
    proof (cases "list_all (\<lambda>vec. \<not> isl (?ra vec)) [0..<?n]")
      case ok: True
      have oc: "one_cluster (Fin 0) ?s1"
        unfolding one_cluster_def list_all_iff
      proof (intro conjI ballI)
        from False show "?s1 \<noteq> []" by simp
        show "\<not> fl_isnan (Fin 0)" by simp
      next
        fix row assume "row \<in> set ?s1"
        then obtain vec where v: "vec < ?n" and row: "row = projr (?ra vec)" by auto
        from ok v have "\<not> isl (?ra vec)" by (simp add: list_all_iff)
        with row have "?ra vec = Inr row" by (cases "?ra vec") simp_all
        from neighbor_row_Inr [OF this] show "row \<noteq> []" "row ! 0 = Fin 0" by simp_all
      qed
      have sb: "map (\<lambda>vec. projr (?rb vec)) [0..<?n] = relabel (Fin (of_int c)) ?s1"
        unfolding relabel_def map_map
      proof (rule map_cong [OF refl])
        fix vec assume "vec \<in> set [0..<?n]"
        with ok have "\<not> isl (?ra vec)" by (simp add: list_all_iff)
        then show "projr (?rb vec) = ((\<lambda>row. Fin (of_int c) # tl row) \<circ> (\<lambda>vec. projr (?ra vec))) vec"
          unfolding rel by (cases "?ra vec") simp_all
      qed
      have c1: "column 1 (relabel (Fin (of_int c)) ?s1) = column 1 ?s1"
        by (rule column_relabel [OF oc]) simp
      have "map_sum id (\<lambda>(self1, t). column 10 t)
              (later_stages erf ?B (relabel (Fin (of_int c)) ?s1)) =
            map_sum id (\<lambda>(self1, t). column 10 t) (later_stages erf ?A ?s1)"
        by (rule later_stages_relabel [OF oc]) simp_all
      with ok False ids da db sb c1 show ?thesis
        by (simp add: fit_scores_of_fit_store fit_store_def del: distances.simps)
    next
      case False
      with \<open>?n \<noteq> 0\<close> ids da db show ?thesis
        by (simp add: fit_scores_of_fit_store fit_store_def del: distances.simps)
    qed
  qed
qed

lemma far_last_array_labels:
  "map_sum id snd (fit mem [7] erf (fresh far_last 2 (Some (Ndarray [7, 7, 7, 7]))))
     = Inr (far_last_scores erf)"
proof -
  have a: "(fresh far_last 2 None)\<lparr>cluster_labels := None\<rparr> = fresh far_last 2 None"
    and b: "(fresh far_last 2 None)\<lparr>cluster_labels :=
               Some (Ndarray (replicate (length (data (fresh far_last 2 None))) 7))\<rparr>
       = fresh far_last 2 (Some (Ndarray [7, 7, 7, 7]))"
    by (simp_all add: fresh_def far_last_def)
  have h0: "set_iteration [0]
      (elements (cluster_labels_of ((fresh far_last 2 None)\<lparr>cluster_labels := None\<rparr>)))"
    unfolding a by (simp add: cluster_labels_of_def fresh_def far_last_def set_iteration_def)
  have h1: "set_iteration [7] (elements (cluster_labels_of ((fresh far_last 2 None)
      \<lparr>cluster_labels := Some (Ndarray (replicate (length (data (fresh far_last 2 None))) 7))\<rparr>)))"
    unfolding b by (simp add: cluster_labels_of_def fresh_def set_iteration_def)
  from one_cluster_array_equals_default [OF h0 h1, of mem erf mem]
  show ?thesis unfolding a b by (simp add: far_last_fit)
qed

lemma list_labels_distances:
  "distances (fresh d k (Some (Pylist xs))) [c] s =
     (if list_ex fl_truthy (column 1 s) then Inr s else Inl SystemExit)"
  by (simp add: distances_Pylist [of _ xs] cluster_labels_of_def fresh_def del: distances.simps)

lemma zeroed_store_column1:
  "\<not> list_ex fl_truthy (column 1 (store zeroed self))"
  by (simp add: list_ex_iff column_def store_def zeroed_def)

section \<open>The claims\<close>

subsection \<open>C1: the neighbor distances\<close>

text \<open>
  C1 says that stage 1 takes the Euclidean distances between the members of a cluster and
  the mean of the \<open>n_neighbors\<close> smallest distances to the other members. For the three
  points \<open>(0,0)\<close>, \<open>(3,4)\<close>, \<open>(6,8)\<close> in one cluster and two neighbors that is
  \<open>7.5\<close>, \<open>5\<close>, \<open>7.5\<close>. The table \<open>distances\<close> returns holds \<open>0\<close>, \<open>1.5\<close>, \<open>5.25\<close> in
  column 1: \<^verbatim>\<open>np.tril\<close> in line 126 zeroes feature \<open>k\<close> of the row of member \<open>vec\<close>
  unless \<open>k < vec\<close>, and line 128 takes the mean of the absolute differences of the
  features, not the root of the sum of their squares.
\<close>

theorem distances_not_euclidean:
  "distances (fresh plane_data 2 None) [0] (store mem (fresh plane_data 2 None)) =
     Inr [[Fin 0, Fin 0, Fin 0], [Fin 0, Fin (3 / 2), Fin (3 / 2)], [Fin 0, Fin (21 / 4), Fin 7]]
   \<and> map (spec_context_distance plane_data 2) [0..<3] = [Fin (15 / 2), Fin 5, Fin (15 / 2)]"
  by (simp only: plane_distances plane_spec)

subsection \<open>C2: the score as a function of PLOF and nPLOF\<close>

text \<open>
  C2. When \<open>fit\<close> returns, it returns column 10 of the table, and in every row the score
  (column 10) is \<open>max(0, erf(plof / (nplof \<times> sqrt 2)))\<close> of the row's \<open>plof\<close> (column 7) and
  \<open>nplof\<close> (column 9), where \<open>plof\<close> is \<open>prob_set_distance\<close> (column 5) over its cluster
  mean (column 6) minus 1 and \<open>nplof\<close> is \<open>extent\<close> times the square root of the cluster
  mean of the squared \<open>plof\<close> (column 8). With a valid extent and an \<open>erf\<close> that is not
  positive on arguments that are not positive, the score of a row with a negative
  \<open>plof\<close> is 0.
\<close>

theorem score_is_clamped_erf_of_plof:
  assumes "fit_store mem ids erf self = Inr (self0, s9)" and "i < length s9"
  shows "fit mem ids erf self =
           Inr (self0\<lparr>local_outlier_probabilities := Some (column 10 s9)\<rparr>, column 10 s9)
       \<and> column 10 s9 ! i =
           fl_maximum0 (fl_erf erf (fl_div (column 7 s9 ! i)
                                          (fl_mul (column 9 s9 ! i) (fl_sqrt (Fin 2)))))
       \<and> column 7 s9 ! i = fl_sub (fl_div (column 5 s9 ! i) (column 6 s9 ! i)) (Fin 1)
       \<and> column 9 s9 ! i = fl_mul (extent self) (fl_sqrt (column 8 s9 ! i))
       \<and> (extent self = Fin e \<and> 0 < e \<and> (\<forall>y\<le>0. erf y \<le> 0) \<and> fl_lt (column 7 s9 ! i) (Fin 0)
            \<longrightarrow> column 10 s9 ! i = Fin 0)"
proof -
  from fit_store_row [OF assms] obtain c cd cl a3 sd psd a6 plof a8 nplof s6 s2 s1 where
    row: "s9 ! i = [c, cd, cl, a3, sd, psd, a6, plof, a8, nplof, local_outlier_probability erf plof nplof]"
    and sd: "sd = standard_distance cd a3"
    and psd: "psd = prob_set_distance (extent self) sd"
    and plof: "plof = prob_outlier_factor psd a6"
    and nplof: "nplof = norm_prob_outlier_factor (extent self) a8"
    and a8: "a8 = cluster_ev_plof_sq s6 c" and c: "\<not> fl_isnan c"
    and s6: "i < length s6" "s6 ! i = [c, cd, cl, a3, sd, psd, a6, plof]"
    and a6: "a6 = cluster_ev_prob_set_distance (prob_set_distances self (standard_distances s2)) c"
    and w2: "list_all (\<lambda>row. length row = 4) s2"
    by blast
  have zero: "local_outlier_probability erf plof nplof = Fin 0"
    if e: "extent self = Fin e" "0 < e" and erf: "\<forall>y\<le>0. erf y \<le> 0" and neg: "fl_lt plof (Fin 0)"
  proof -
    from e have p: "fl_nonneg psd \<or> fl_isnan psd"
      unfolding psd sd by (simp add: prob_set_distance_sign)
    from e w2 have a: "fl_nonneg a6 \<or> fl_isnan a6"
      unfolding a6 by (intro cluster_ev_prob_set_distance_sign)
    from neg have "fl_lt (prob_outlier_factor psd a6) (Fin 0)" by (simp add: plof)
    with p a have "\<exists>x<0. prob_outlier_factor psd a6 = Fin x"
      by (rule prob_outlier_factor_negative)
    then obtain x where x: "x < 0" "plof = Fin x" by (auto simp: plof)
    from s6 x c have "fl_pos a8"
      unfolding a8 by (intro cluster_ev_plof_sq_pos [of i s6 c x]) simp_all
    with x e erf show ?thesis
      unfolding nplof by (simp add: negative_plof_scores_zero)
  qed
  from assms(2) row zero show ?thesis
    using fit_of_fit_store [OF assms(1)]
    by (simp add: local_outlier_probability_def plof nplof prob_outlier_factor_def
        norm_prob_outlier_factor_def)
qed

theorem score_is_clamped_erf_of_plof_witness:
  "column 10 (far_last_table erf_like) ! 0 = Fin 0
   \<and> fit zeroed [0] erf_like (fresh far_last 2 None) =
       Inr ((fresh far_last 2 None)\<lparr>cluster_labels_u := Some [Fin 0],
              local_outlier_probabilities := Some (column 10 (far_last_table erf_like))\<rparr>,
            column 10 (far_last_table erf_like))"
proof -
  have h1: "fit_store zeroed [0] erf_like (fresh far_last 2 None) =
    Inr ((fresh far_last 2 None)\<lparr>cluster_labels_u := Some [Fin 0]\<rparr>, far_last_table erf_like)"
    by (rule far_last_fit_store)
  have h2: "0 < length (far_last_table erf_like)" by (simp add: far_last_table_def)
  have h3: "extent (fresh far_last 2 None) = Fin (997 / 1000)" by (simp add: fresh_def)
  have h4: "\<forall>y\<le>0. erf_like y \<le> 0" by (simp add: erf_like_sign)
  have h5: "fl_lt (column 7 (far_last_table erf_like) ! 0) (Fin 0)"
    by (simp add: far_last_table_def far_last_row_def column_def)
  note t = score_is_clamped_erf_of_plof [OF h1 h2, of "997 / 1000"]
  from h3 h4 h5 have "extent (fresh far_last 2 None) = Fin (997 / 1000) \<and> 0 < (997 / 1000 :: real)
      \<and> (\<forall>y\<le>0. erf_like y \<le> 0) \<and> fl_lt (column 7 (far_last_table erf_like) ! 0) (Fin 0)"
    by (intro conjI) simp_all
  with t [THEN conjunct2, THEN conjunct2, THEN conjunct2, THEN conjunct2]
  have "column 10 (far_last_table erf_like) ! 0 = Fin 0" by (rule mp)
  with t [THEN conjunct1] show ?thesis by (intro conjI)
qed

subsection \<open>C3: the vector fit returns\<close>



subsection \<open>C4: the closest neighbor\<close>

text \<open>
  C4 says that \<open>closest_neighbor_distance\<close> is the smallest of the sorted neighbor
  distances. Line 130 takes the slice \<^verbatim>\<open>[1:2]\<close> of the neighborhood, which is its second
  element: for the points 0, 1, 3 of the line and two neighbors, the member 1 has the
  neighborhood \<open>[1, 2]\<close> and the table holds 2 in column 2, the member 3 has \<open>[2, 3]\<close> and
  the table holds 3. With one neighbor the slice is empty and the row cannot be built.
\<close>

theorem closest_neighbor_is_second:
  "neighborhood (fresh line_data 2 None) line_data 1 = [Fin 1, Fin 2]
   \<and> neighborhood (fresh line_data 2 None) line_data 2 = [Fin 2, Fin 3]
   \<and> distances (fresh line_data 2 None) [0] (store mem (fresh line_data 2 None)) =
       Inr [[Fin 0, Fin 0, Fin 0], [Fin 0, Fin (3 / 2), Fin 2], [Fin 0, Fin (5 / 2), Fin 3]]
   \<and> fit mem [0] erf (fresh line_data 1 None) = Inl ValueError"
  by (simp only: line_neighborhoods line_distances line_one_neighbor_fit)

subsection \<open>C5: more neighbors than the smallest cluster has members\<close>

text \<open>
  C5 says that an \<open>n_neighbors\<close> that is not smaller than the smallest cluster is detected
  at configuration time and is fatal. The constructor never looks at the cluster sizes:
  with three observations in one cluster and \<open>n_neighbors = 3\<close> it returns the object.
\<close>

theorem init_accepts_too_many_neighbors:
  "int (smallest_cluster_size (elements (cluster_labels_of (fresh line_data 3 None))))
     \<le> n_neighbors (fresh line_data 3 None)
   \<and> init line_data (Fin (997 / 1000)) 3 None = Inr (fresh line_data 3 None)"
  by (simp add: init_def fresh_def Let_def fl_le_def fl_eq_def line_data_def
      smallest_cluster_size_def cluster_size_def cluster_labels_of_def)

text \<open>
  C5 as amended. The constructor checks \<open>n_neighbors > 0\<close> and \<open>0 < extent \<le> 1\<close> and nothing
  else: for every such configuration it returns the object, whatever the data and the
  cluster labels are.
\<close>

theorem init_accepts_any_cluster_size:
  "0 < n_neighbors0 \<Longrightarrow> fl_lt (Fin 0) extent0 \<Longrightarrow> fl_le extent0 (Fin 1)
   \<Longrightarrow> init data0 extent0 n_neighbors0 cluster_labels0 =
       Inr \<lparr>data = data0, extent = extent0, n_neighbors = n_neighbors0,
            cluster_labels = cluster_labels0, local_outlier_probabilities = None,
            cluster_labels_u = None\<rparr>"
  by (simp add: init_def Let_def)

theorem init_accepts_any_cluster_size_witness:
  "init line_data (Fin 1) 10 (Some (Ndarray [0, 1, 2])) =
     Inr \<lparr>data = line_data, extent = Fin 1, n_neighbors = 10,
          cluster_labels = Some (Ndarray [0, 1, 2]), local_outlier_probabilities = None,
          cluster_labels_u = None\<rparr>"
  using init_accepts_any_cluster_size [of 10 "Fin 1" line_data "Some (Ndarray [0, 1, 2])"]
  by (simp add: fl_le_def fl_eq_def)

subsection \<open>C6: degenerate clusters\<close>

text \<open>
  C6. A run in which the neighbor distances of a cluster are all zero, or in which the sum
  of the squared context distances of a cluster is exactly zero, ends in an error and
  returns no scores. If stage 1 itself ends in an error, so does \<open>fit\<close>, with that error.
  If stage 1 returns its table and the context distances (column 1) of the rows of some
  cluster id of the table are all zero, or their sum of squares without the NaN entries is
  zero, then \<^verbatim>\<open>_ssd\<close> calls \<^verbatim>\<open>sys.exit()\<close>.
\<close>

theorem degenerate_cluster_is_fatal:
  "(distances self ids (store mem self) = Inl e \<longrightarrow> fit mem ids erf self = Inl e)
   \<and> (distances self ids (store mem self) = Inr s1 \<and> cid \<in> set (column 0 s1)
        \<and> (list_all (\<lambda>x. x = Fin 0) (cluster_column 1 s1 cid) \<or> fl_eq (cluster_ssd s1 cid) (Fin 0))
      \<longrightarrow> fit mem ids erf self = Inl SystemExit)"
proof (intro conjI impI)
  assume "distances self ids (store mem self) = Inl e"
  then show "fit mem ids erf self = Inl e" by (simp add: fit_def fit_store_def later_stages_def)
next
  assume a: "distances self ids (store mem self) = Inr s1 \<and> cid \<in> set (column 0 s1)
        \<and> (list_all (\<lambda>x. x = Fin 0) (cluster_column 1 s1 cid) \<or> fl_eq (cluster_ssd s1 cid) (Fin 0))"
  then have "fl_eq (cluster_ssd s1 cid) (Fin 0)"
    by (auto simp: cluster_ssd_zero fl_eq_def)
  moreover from a have "cid \<in> set (column 0 s1)" by simp
  ultimately have "ssd self s1 = Inl SystemExit" by (intro ssd_exit)
  with a show "fit mem ids erf self = Inl SystemExit" by (simp add: fit_def fit_store_def later_stages_def)
qed

theorem degenerate_cluster_is_fatal_witness:
  "fit zeroed [0, 1] erf_like two_clusters = Inl SystemExit
   \<and> fit zeroed [0] erf_like (fresh far_first 2 None) = Inl SystemExit"
proof -
  have "Fin 1 \<in> set (column 0 two_clusters_table)
      \<and> (list_all (\<lambda>x. x = Fin 0) (cluster_column 1 two_clusters_table (Fin 1))
         \<or> fl_eq (cluster_ssd two_clusters_table (Fin 1)) (Fin 0))"
    by (simp add: two_clusters_table_def column_def cluster_column_def fl_eq_def)
  with two_clusters_distances [of zeroed]
  have "distances two_clusters [0, 1] (store zeroed two_clusters) = Inr two_clusters_table
      \<and> Fin 1 \<in> set (column 0 two_clusters_table)
      \<and> (list_all (\<lambda>x. x = Fin 0) (cluster_column 1 two_clusters_table (Fin 1))
         \<or> fl_eq (cluster_ssd two_clusters_table (Fin 1)) (Fin 0))"
    by (rule conjI)
  with degenerate_cluster_is_fatal [of two_clusters "[0, 1]" zeroed _ erf_like two_clusters_table "Fin 1",
      THEN conjunct2]
  have a: "fit zeroed [0, 1] erf_like two_clusters = Inl SystemExit" by (rule mp)
  from degenerate_cluster_is_fatal [of "fresh far_first 2 None" "[0]" zeroed SystemExit erf_like,
      THEN conjunct1] far_first_distances [of zeroed]
  have b: "fit zeroed [0] erf_like (fresh far_first 2 None) = Inl SystemExit" by (rule mp)
  from a b show ?thesis by (rule conjI)
qed

subsection \<open>C7: an invalid configuration\<close>

text \<open>
  C7. For every configuration with \<open>n_neighbors \<le> 0\<close> or \<open>extent\<close> outside \<open>(0, 1]\<close> the
  computation fails fatally before any distance computation: the constructor itself
  ends in \<^verbatim>\<open>sys.exit()\<close>, so there is no object whose \<open>fit\<close> could compute a distance.
  An extent that is NaN is outside the interval.
\<close>

theorem init_rejects_invalid_configuration:
  "n_neighbors0 \<le> 0 \<or> \<not> (fl_lt (Fin 0) extent0 \<and> fl_le extent0 (Fin 1))
   \<Longrightarrow> init data0 extent0 n_neighbors0 cluster_labels0 = Inl SystemExit"
  by (auto simp: init_def Let_def)

theorem init_rejects_invalid_configuration_witness:
  "init line_data (Fin (997 / 1000)) 0 None = Inl SystemExit
   \<and> init line_data (Fin (3 / 2)) 2 None = Inl SystemExit
   \<and> init line_data NaN 2 None = Inl SystemExit"
  using init_rejects_invalid_configuration [of 0 "Fin (997 / 1000)" line_data None]
    init_rejects_invalid_configuration [of 2 "Fin (3 / 2)" line_data None]
    init_rejects_invalid_configuration [of 2 NaN line_data None]
  by (simp add: fl_le_def fl_eq_def)

subsection \<open>C8: rows in another order\<close>

text \<open>
  C8 says that the scores of permuted rows are the permuted scores. Three copies of the
  origin of 3-space followed by the point \<open>(0,0,3)\<close> get scores; with the point
  \<open>(0,0,3)\<close> first, \<open>fit\<close> ends in \<^verbatim>\<open>sys.exit()\<close>, since the distance line 126 computes
  depends on the position of the member in its cluster. The labels are the default.
\<close>

theorem fit_not_permutation_equivariant:
  "far_first = permute [3, 0, 1, 2] far_last
   \<and> fit mem [0] erf (fresh far_last 2 None) =
       Inr ((fresh far_last 2 None)\<lparr>cluster_labels_u := Some [Fin 0],
              local_outlier_probabilities := Some (far_last_scores erf)\<rparr>, far_last_scores erf)
   \<and> fit mem [0] erf (fresh (permute [3, 0, 1, 2] far_last) 2 None) = Inl SystemExit"
proof -
  have p: "far_first = permute [3, 0, 1, 2] far_last"
    by (simp add: permute_def far_first_def far_last_def)
  with far_last_fit [of mem erf] far_first_fit [of mem erf] show ?thesis by simp
qed

subsection \<open>C9: no labels and the labels of one cluster\<close>

text \<open>
  C9. The claim: \<open>fit\<close> without cluster labels and \<open>fit\<close> with labels that give every
  observation the same label have the same result. With the labels in a NumPy array this
  holds, whatever the uninitialised store of each call holds
  (\<open>one_cluster_array_equals_default\<close>). The decorator of line 67 admits a Python list
  too; line 114 wraps the default labels in \<^verbatim>\<open>np.array\<close>, line 116 returns a given list as
  it is, and line 120 compares the list with the cluster id, which is \<^verbatim>\<open>False\<close>: no member is
  found. For the data \<open>far_last\<close> with two neighbors the constructor accepts the list
  \<^verbatim>\<open>[7, 7, 7, 7]\<close>; without labels and with the array of these labels \<open>fit\<close> returns
  \<open>far_last_scores\<close>; with the list, stage 1 writes no row: it hands on the uninitialised
  store, or exits when column 1 of that store is all zero, and on a zero-filled store \<open>fit\<close>
  ends in \<^verbatim>\<open>SystemExit\<close>.
\<close>

theorem list_labels_find_no_member:
  "set_iteration [0] (elements (cluster_labels_of (fresh far_last 2 None)))
   \<and> set_iteration [7] (elements (cluster_labels_of (fresh far_last 2 (Some (Pylist [7, 7, 7, 7])))))
   \<and> init far_last (Fin (997 / 1000)) 2 (Some (Pylist [7, 7, 7, 7]))
       = Inr (fresh far_last 2 (Some (Pylist [7, 7, 7, 7])))
   \<and> map_sum id snd (fit mem [0] erf (fresh far_last 2 None)) = Inr (far_last_scores erf)
   \<and> map_sum id snd (fit mem [7] erf (fresh far_last 2 (Some (Ndarray [7, 7, 7, 7]))))
       = Inr (far_last_scores erf)
   \<and> where_eq (cluster_labels_of (fresh far_last 2 (Some (Pylist [7, 7, 7, 7])))) 7 = []
   \<and> distances (fresh far_last 2 (Some (Pylist [7, 7, 7, 7]))) [7]
         (store mem (fresh far_last 2 (Some (Pylist [7, 7, 7, 7]))))
       = (if list_ex fl_truthy (column 1 (store mem (fresh far_last 2 (Some (Pylist [7, 7, 7, 7])))))
          then Inr (store mem (fresh far_last 2 (Some (Pylist [7, 7, 7, 7]))))
          else Inl SystemExit)
   \<and> fit zeroed [7] erf (fresh far_last 2 (Some (Pylist [7, 7, 7, 7]))) = Inl SystemExit"
proof -
  have "set_iteration [0] (elements (cluster_labels_of (fresh far_last 2 None)))"
    by (simp add: cluster_labels_of_def fresh_def far_last_def set_iteration_def)
  moreover
  have "set_iteration [7] (elements (cluster_labels_of (fresh far_last 2 (Some (Pylist [7, 7, 7, 7])))))"
    by (simp add: cluster_labels_of_def fresh_def set_iteration_def)
  moreover
  have "init far_last (Fin (997 / 1000)) 2 (Some (Pylist [7, 7, 7, 7]))
       = Inr (fresh far_last 2 (Some (Pylist [7, 7, 7, 7])))"
    by (simp add: init_def fresh_def Let_def fl_le_def fl_eq_def)
  moreover
  have "map_sum id snd (fit mem [0] erf (fresh far_last 2 None)) = Inr (far_last_scores erf)"
    by (simp add: far_last_fit)
  moreover
  have "where_eq (cluster_labels_of (fresh far_last 2 (Some (Pylist [7, 7, 7, 7])))) 7 = []"
    by (simp add: cluster_labels_of_def fresh_def)
  moreover
  have "fit zeroed [7] erf (fresh far_last 2 (Some (Pylist [7, 7, 7, 7]))) = Inl SystemExit"
  proof -
    have "distances (fresh far_last 2 (Some (Pylist [7, 7, 7, 7]))) [7]
            (store zeroed (fresh far_last 2 (Some (Pylist [7, 7, 7, 7])))) = Inl SystemExit"
      by (simp only: list_labels_distances zeroed_store_column1 if_False)
    then show ?thesis by (simp add: fit_def fit_store_def del: distances.simps)
  qed
  ultimately show ?thesis
    using far_last_array_labels [of mem erf]
      list_labels_distances [of far_last 2 "[7, 7, 7, 7]" 7]
    by (intro conjI)
qed

subsection \<open>C10: what fit changes\<close>

text \<open>
  C10. After a successful \<open>fit\<close> the attributes \<open>data\<close>, \<open>extent\<close>, \<open>n_neighbors\<close> and
  \<open>cluster_labels\<close> are what they were; only \<open>local_outlier_probabilities\<close> and the
  cache \<open>cluster_labels_u\<close> are written, and the vector returned is the vector stored.
\<close>

theorem fit_frame:
  "fit mem ids erf self = Inr (self1, scores)
   \<Longrightarrow> self1 = self\<lparr>local_outlier_probabilities := Some scores,
                    cluster_labels_u := cluster_labels_u self1\<rparr>
     \<and> data self1 = data self \<and> extent self1 = extent self
     \<and> n_neighbors self1 = n_neighbors self \<and> cluster_labels self1 = cluster_labels self
     \<and> local_outlier_probabilities self1 = Some scores"
  by (auto simp: fit_def fit_store_def later_stages_def ssd_def Let_def split: sum.splits prod.splits)

theorem fit_frame_witness:
  "data ((fresh far_last 2 None)\<lparr>cluster_labels_u := Some [Fin 0],
            local_outlier_probabilities := Some (far_last_scores erf_like)\<rparr>) = far_last
   \<and> local_outlier_probabilities ((fresh far_last 2 None)\<lparr>cluster_labels_u := Some [Fin 0],
            local_outlier_probabilities := Some (far_last_scores erf_like)\<rparr>)
       = Some (far_last_scores erf_like)"
  using fit_frame [OF far_last_fit [of zeroed erf_like]]
  by (simp add: fresh_def)

end
